theory Spec2Isabelle
  imports Complex_Main "HOL-Library.AList"
begin

section \<open>Provider payloads as JSON values\<close>

text \<open>
  The handlers of \<^verbatim>\<open>app/api/v1/replicate.py\<close> work on values decoded from JSON:
  Python's \<^verbatim>\<open>None\<close>, booleans, numbers, strings, lists and dicts. A dict keeps its
  keys in insertion order, and \<^verbatim>\<open>output.values()\<close> walks them in that order, so a dict
  is an association list (with distinct keys).
\<close>

datatype json =
    JNull
  | JBool bool
  | JNum int
  | JStr string
  | JList "json list"
  | JDict "(string \<times> json) list"

text \<open>Python truthiness, as used by \<^verbatim>\<open>if url:\<close>, \<^verbatim>\<open>a or b\<close> and \<^verbatim>\<open>not x\<close>.\<close>

fun truthy :: "json \<Rightarrow> bool" where
  "truthy JNull = False"
| "truthy (JBool b) = b"
| "truthy (JNum n) = (n \<noteq> 0)"
| "truthy (JStr s) = (s \<noteq> [])"
| "truthy (JList xs) = (xs \<noteq> [])"
| "truthy (JDict kvs) = (kvs \<noteq> [])"

definition py_or :: "json \<Rightarrow> json \<Rightarrow> json" where
  "py_or a b = (if truthy a then a else b)"

text \<open>\<^verbatim>\<open>isinstance(value, str) and value.startswith("http")\<close>\<close>

fun is_http :: "json \<Rightarrow> bool" where
  "is_http (JStr s) = (take 4 s = ''http'')"
| "is_http _ = False"

fun str_of :: "json \<Rightarrow> string option" where
  "str_of (JStr s) = Some s"
| "str_of _ = None"

text \<open>The first value of a list that is a string starting with \<^verbatim>\<open>http\<close>.\<close>

fun first_http :: "json list \<Rightarrow> string option" where
  "first_http [] = None"
| "first_http (v # vs) = (if is_http v then str_of v else first_http vs)"

definition url_keys :: "string list" where
  "url_keys = [''url'', ''video'', ''mp4'', ''download_url'']"

text \<open>
  \<^verbatim>\<open>output.get(key)\<close> for each key of \<^verbatim>\<open>url_keys\<close>, in order; a missing key gives
  \<^verbatim>\<open>None\<close>, which is not a string.
\<close>

definition dict_get :: "(string \<times> json) list \<Rightarrow> string \<Rightarrow> json" where
  "dict_get kvs k = (case map_of kvs k of None \<Rightarrow> JNull | Some v \<Rightarrow> v)"

section \<open>Output Normalizer\<close>

text \<open>
  \<^verbatim>\<open>extract_result_from_output\<close> (replicate.py, lines 41-77). The result is the pair
  (URL, payload); \<^verbatim>\<open>None\<close> as payload is \<^const>\<open>JNull\<close>. The loop over a list is
  \<open>first_url\<close>: it asks each item in turn and stops at the first URL that is truthy
  (\<^verbatim>\<open>if url:\<close>, so an empty string does not count). The dict branch looks at the values
  that are strings only: it does not descend into a value that is a list or a dict.
\<close>

fun extract_result_from_output :: "json \<Rightarrow> string option \<times> json"
  and first_url :: "json list \<Rightarrow> string option"
where
  "extract_result_from_output JNull = (None, JNull)"
| "extract_result_from_output (JStr s) = (Some s, JStr s)"
| "extract_result_from_output (JList xs) = (first_url xs, JList xs)"
| "extract_result_from_output (JDict kvs) =
     (case first_http (map (dict_get kvs) url_keys) of
        Some u \<Rightarrow> (Some u, JDict kvs)
      | None \<Rightarrow> (first_http (map snd kvs), JDict kvs))"
| "extract_result_from_output (JBool b) = (None, JNull)"
| "extract_result_from_output (JNum n) = (None, JNull)"
| "first_url [] = None"
| "first_url (x # xs) =
     (case fst (extract_result_from_output x) of
        Some u \<Rightarrow> if u \<noteq> [] then Some u else first_url xs
      | None \<Rightarrow> first_url xs)"

section \<open>The shared store, the import queue and the provider\<close>

text \<open>
  A job record is the dict that is stored as JSON under \<^verbatim>\<open>ai_job:{job_id}\<close>.
  \<^verbatim>\<open>d.get(k, default)\<close> is \<open>dict_get_default\<close>; \<^verbatim>\<open>d[k] = v\<close> is \<^const>\<open>AList.update\<close>,
  which overwrites the value of an existing key in place and appends a new key.
\<close>

type_synonym jdict = "(string \<times> json) list"

definition dict_get_default :: "jdict \<Rightarrow> string \<Rightarrow> json \<Rightarrow> json" where
  "dict_get_default d k dflt = (case map_of d k of None \<Rightarrow> dflt | Some v \<Rightarrow> v)"

datatype import_kind = VideoImport | ImageImport

text \<open>One call of \<^verbatim>\<open>enqueue_video_import\<close> or \<^verbatim>\<open>enqueue_image_import\<close> with its arguments.\<close>

record import_call =
  ic_kind :: import_kind
  ic_url :: json
  ic_name :: string
  ic_user_id :: string
  ic_asset_id :: string
  ic_metadata :: jdict

text \<open>
  The state the handlers share. \<open>jobs\<close> are the keys \<^verbatim>\<open>ai_job:{job_id}\<close>, \<open>imported\<close>
  the keys \<^verbatim>\<open>imported:{job_id}\<close>, \<open>mappings\<close> the keys \<^verbatim>\<open>prediction_mapping:{id}\<close>.
  \<open>events\<close> are the messages published (channel, job id, status), \<open>import_calls\<close> the
  calls made to the import queue (whether or not the call raised), \<open>provider_gets\<close> the
  job ids asked of \<^verbatim>\<open>replicate.predictions.get\<close>, \<open>error_log\<close> the messages of
  \<^verbatim>\<open>logger.error\<close>. The store is taken to be reachable: its calls do not raise, and
  the 24 hour expiry of the keys is not modelled.
\<close>

record world =
  jobs :: "string \<rightharpoonup> jdict"
  imported :: "string set"
  mappings :: "string \<rightharpoonup> jdict"
  events :: "(string \<times> string \<times> string) list"
  import_calls :: "import_call list"
  provider_gets :: "string list"
  error_log :: "string list"

record prediction =
  pred_status :: string
  pred_output :: json
  pred_error :: json

text \<open>
  What a handler reads from outside the store: the environment variable
  \<^verbatim>\<open>REPLICATE_API_TOKEN\<close>, the provider's answer to \<^verbatim>\<open>predictions.get\<close> (\<open>None\<close>: the
  call raises), the provider's answer to the \<^verbatim>\<open>predictions.create\<close> call made for the
  clip of a given index and prompt (\<open>Inr\<close> the id of the new prediction, \<open>Inl\<close> the text of
  the exception raised), the answer of the import queue to a call (the id of the queued
  job, \<open>None\<close>: the call raises), the value of \<^verbatim>\<open>uuid.uuid4()\<close> in a reconciler, the value
  of \<^verbatim>\<open>uuid.uuid4().hex\<close> drawn for the clip of a given index, and the clock.
\<close>

record env =
  api_token :: "string option"
  predictions_get :: "string \<Rightarrow> prediction option"
  predictions_create :: "nat \<Rightarrow> string \<Rightarrow> string + string"
  enqueue :: "import_call \<Rightarrow> string option"
  uuid4 :: string
  clip_uuid_hex :: "nat \<Rightarrow> string"
  now :: string

text \<open>
  \<^verbatim>\<open>redis_conn.setex(f"ai_job:{job_id}", 86400, json.dumps(job_data))\<close> and
  \<^verbatim>\<open>redis_conn.setex(f"imported:{job_id}", 86400, "1")\<close>.
\<close>

definition setex_job :: "string \<Rightarrow> jdict \<Rightarrow> world \<Rightarrow> world" where
  "setex_job jid d w = w\<lparr>jobs := (jobs w)(jid \<mapsto> d)\<rparr>"

definition setex_imported :: "string \<Rightarrow> world \<Rightarrow> world" where
  "setex_imported jid w = w\<lparr>imported := insert jid (imported w)\<rparr>"

text \<open>The effects outside the store: a logged error, a call of the import queue, a call of the provider.\<close>

definition log_error :: "string \<Rightarrow> world \<Rightarrow> world" where
  "log_error msg w = w\<lparr>error_log := error_log w @ [msg]\<rparr>"

definition record_import_call :: "import_call \<Rightarrow> world \<Rightarrow> world" where
  "record_import_call call w = w\<lparr>import_calls := import_calls w @ [call]\<rparr>"

definition record_provider_get :: "string \<Rightarrow> world \<Rightarrow> world" where
  "record_provider_get jid w = w\<lparr>provider_gets := provider_gets w @ [jid]\<rparr>"

datatype response = Ok200 jdict | Err404 | Err500

definition default_user :: string where
  "default_user = ''00000000-0000-0000-0000-000000000001''"

definition import_metadata :: "json \<Rightarrow> json \<Rightarrow> string \<Rightarrow> jdict" where
  "import_metadata prompt model jid =
     [(''aiGenerated'', JBool True), (''prompt'', prompt), (''model'', model),
      (''replicate_job_id'', JStr jid)]"

section \<open>Event Publisher\<close>

text \<open>
  \<^verbatim>\<open>publish_job_update\<close> (lines 119-182): the status is mapped and the same message goes
  to the channel of the job and to the global channel.
\<close>

definition publish_status_map :: "string \<Rightarrow> string" where
  "publish_status_map s =
     (if s = ''starting'' then ''queued''
      else if s = ''processing'' then ''running''
      else s)"

definition publish_job_update :: "string \<Rightarrow> string \<Rightarrow> world \<Rightarrow> world" where
  "publish_job_update jid status_value w =
     w\<lparr>events := events w @
          [(''job:progress:'' @ jid, jid, publish_status_map status_value),
           (''ai_jobs:updates'', jid, publish_status_map status_value)]\<rparr>"

section \<open>Webhook Reconciler\<close>

record payload =
  p_id :: string
  p_status :: string
  p_output :: json
  p_error :: "string option"

text \<open>
  The schema \<^verbatim>\<open>ReplicateWebhookPayload\<close> declares
  \<^verbatim>\<open>output: list[str] | str | None\<close>: any other output fails validation, and the handler
  answers 500 from its outer \<^verbatim>\<open>except\<close> before it touches the store.
\<close>

fun valid_output :: "json \<Rightarrow> bool" where
  "valid_output JNull = True"
| "valid_output (JStr s) = True"
| "valid_output (JList xs) = list_all (\<lambda>x. str_of x \<noteq> None) xs"
| "valid_output _ = False"

text \<open>
  The import trigger of the webhook (lines 2268-2352), entered when the payload's status
  is \<^verbatim>\<open>succeeded\<close> and \<open>url\<close> is truthy. The marker is read with \<^verbatim>\<open>exists\<close>, the job is
  enqueued, and only then the marker is written with \<^verbatim>\<open>setex\<close>; when the enqueue call
  raises, the \<^verbatim>\<open>except\<close> logs the error and the marker is not written.
\<close>

definition webhook_import_call :: "env \<Rightarrow> string \<Rightarrow> string \<Rightarrow> jdict \<Rightarrow> import_call" where
  "webhook_import_call e jid url jd =
     (let generation_type = dict_get_default jd ''generation_type'' (JStr ''image'');
          prompt = dict_get_default jd ''prompt'' (JStr []);
          model = dict_get_default jd ''model'' (JStr ''unknown'')
      in if generation_type = JStr ''video''
         then \<lparr>ic_kind = VideoImport, ic_url = JStr url,
               ic_name = ''AI_Video_'' @ take 8 jid @ ''.mp4'',
               ic_user_id = default_user, ic_asset_id = uuid4 e,
               ic_metadata = import_metadata prompt model jid\<rparr>
         else \<lparr>ic_kind = ImageImport, ic_url = JStr url,
               ic_name = ''AI_Image_'' @ take 8 jid @ ''.png'',
               ic_user_id = default_user, ic_asset_id = uuid4 e,
               ic_metadata = import_metadata prompt model jid\<rparr>)"

definition webhook_import :: "env \<Rightarrow> string \<Rightarrow> string \<Rightarrow> world \<Rightarrow> world" where
  "webhook_import e jid url w =
     (if jid \<in> imported w then w
      else case jobs w jid of
        None \<Rightarrow> w
      | Some jd \<Rightarrow>
          let call = webhook_import_call e jid url jd;
              w1 = record_import_call call w
          in (case enqueue e call of
                None \<Rightarrow> log_error ''Failed to enqueue media import job'' w1
              | Some import_job_id \<Rightarrow>
                  setex_job jid
                    (AList.update ''import_job_id'' (JStr import_job_id)
                      (AList.update ''asset_id'' (JStr (uuid4 e)) jd))
                    (setex_imported jid w1)))"

text \<open>
  The update of the job record (lines 2368-2389). Without a stored record nothing is
  written. With one, \<^verbatim>\<open>status\<close> and \<^verbatim>\<open>updated_at\<close> are always assigned, the other three
  fields only when the payload carries a truthy value.
\<close>

definition webhook_merge :: "env \<Rightarrow> payload \<Rightarrow> string option \<Rightarrow> json \<Rightarrow> jdict \<Rightarrow> jdict" where
  "webhook_merge e p url normalized_output jd =
     (let jd1 = AList.update ''status'' (JStr (p_status p)) jd;
          jd2 = AList.update ''updated_at'' (JStr (now e)) jd1;
          jd3 = (case url of
                   None \<Rightarrow> jd2
                 | Some u \<Rightarrow> if u \<noteq> [] then AList.update ''result_url'' (JStr u) jd2 else jd2);
          jd4 = (case p_error p of
                   None \<Rightarrow> jd3
                 | Some er \<Rightarrow> if er \<noteq> [] then AList.update ''error'' (JStr er) jd3 else jd3);
          out = py_or normalized_output (p_output p)
      in if truthy out then AList.update ''output'' out jd4 else jd4)"

definition webhook_update :: "env \<Rightarrow> payload \<Rightarrow> string option \<Rightarrow> json \<Rightarrow> world \<Rightarrow> world" where
  "webhook_update e p url normalized_output w =
     (case jobs w (p_id p) of
        None \<Rightarrow> w
      | Some jd \<Rightarrow> setex_job (p_id p) (webhook_merge e p url normalized_output jd) w)"

text \<open>
  \<^verbatim>\<open>replicate_webhook\<close> (lines 2188-2401) on a parsed payload. The broadcast to the
  generation's WebSocket (lines 2239-2265) reads the record and writes nothing to the
  store; it is left out.
\<close>

definition replicate_webhook :: "env \<Rightarrow> payload \<Rightarrow> world \<Rightarrow> response \<times> world" where
  "replicate_webhook e p w =
     (if \<not> valid_output (p_output p) then (Err500, w)
      else case extract_result_from_output (p_output p) of
        (url, normalized_output) \<Rightarrow>
          let w1 = (if p_status p = ''succeeded'' then
                      (case url of
                         None \<Rightarrow> publish_job_update (p_id p) ''succeeded'' w
                       | Some u \<Rightarrow>
                           if u \<noteq> []
                           then webhook_import e (p_id p) u
                                  (publish_job_update (p_id p) ''succeeded'' w)
                           else publish_job_update (p_id p) ''succeeded'' w)
                    else if p_status p = ''failed'' then publish_job_update (p_id p) ''failed'' w
                    else if p_status p = ''canceled'' then publish_job_update (p_id p) ''canceled'' w
                    else w)
          in (Ok200 [(''status'', JStr ''ok''), (''job_id'', JStr (p_id p))],
              webhook_update e p url normalized_output w1))"

section \<open>Poll Reconciler\<close>

text \<open>
  The local variables of \<^verbatim>\<open>get_ai_job_status\<close>: \<^verbatim>\<open>job_data\<close>, \<^verbatim>\<open>mapped_status\<close>,
  \<^verbatim>\<open>result_url\<close>, \<^verbatim>\<open>output\<close> and \<^verbatim>\<open>error\<close>.
\<close>

record poll_vars =
  v_job_data :: "jdict option"
  v_status :: json
  v_result_url :: json
  v_output :: json
  v_error :: json

text \<open>
  Lines 1855-1862 and 1915-1918: the values of the cache. \<^verbatim>\<open>if job_data\<close> is the
  truthiness of the dict, so an empty dict counts as no cache.
\<close>

definition cached_vars :: "jdict option \<Rightarrow> poll_vars" where
  "cached_vars job_data =
     (case job_data of
        None \<Rightarrow> \<lparr>v_job_data = None, v_status = JStr ''processing'', v_result_url = JNull,
                  v_output = JNull, v_error = JNull\<rparr>
      | Some d \<Rightarrow>
          if d = [] then
            \<lparr>v_job_data = Some d, v_status = JStr ''processing'', v_result_url = JNull,
             v_output = JNull, v_error = JNull\<rparr>
          else
            \<lparr>v_job_data = Some d,
             v_status = dict_get_default d ''status'' (JStr ''processing''),
             v_result_url = dict_get d ''result_url'',
             v_output = dict_get d ''output'',
             v_error = dict_get d ''error''\<rparr>)"

text \<open>Lines 1865-1869. The stored status is a string (or absent).\<close>

definition should_refresh :: "poll_vars \<Rightarrow> bool" where
  "should_refresh v =
     (v_job_data v = None
      \<or> v_status v \<notin> {JStr ''succeeded'', JStr ''failed'', JStr ''canceled''}
      \<or> (v_status v = JStr ''succeeded'' \<and> \<not> truthy (v_result_url v)))"

text \<open>Lines 1886-1894: \<^verbatim>\<open>status_map.get(prediction.status, prediction.status)\<close>.\<close>

definition status_map :: "string \<Rightarrow> string" where
  "status_map s = (if s = ''starting'' then ''processing'' else s)"

fun json_of_url :: "string option \<Rightarrow> json" where
  "json_of_url None = JNull"
| "json_of_url (Some u) = JStr u"

text \<open>
  Lines 1894-1909: the answer of the provider, normalized and merged over the cached
  record. The dict display \<^verbatim>\<open>{**(job_data or {}), "job_id": ..., ...}\<close> copies the cached
  record and then assigns the six keys in this order.
\<close>

definition poll_merge ::
  "env \<Rightarrow> string \<Rightarrow> jdict option \<Rightarrow> json \<Rightarrow> json \<Rightarrow> json \<Rightarrow> json \<Rightarrow> jdict" where
  "poll_merge e jid job_data mapped_status result_url out err =
     AList.update ''updated_at'' (JStr (now e))
       (AList.update ''error'' err
         (AList.update ''output'' out
           (AList.update ''result_url'' result_url
             (AList.update ''status'' mapped_status
               (AList.update ''job_id'' (JStr jid)
                 (case job_data of None \<Rightarrow> [] | Some d \<Rightarrow> d))))))"

definition refreshed_vars :: "env \<Rightarrow> string \<Rightarrow> jdict option \<Rightarrow> prediction \<Rightarrow> poll_vars" where
  "refreshed_vars e jid job_data pr =
     (case extract_result_from_output (pred_output pr) of
        (url, normalized_output) \<Rightarrow>
          let mapped_status = JStr (status_map (pred_status pr));
              result_url = json_of_url url;
              out = py_or normalized_output (pred_output pr);
              err = pred_error pr;
              merged = poll_merge e jid job_data mapped_status result_url out err
          in \<lparr>v_job_data = Some merged, v_status = mapped_status, v_result_url = result_url,
              v_output = out, v_error = err\<rparr>)"

text \<open>
  The import trigger of the poll (lines 1925-1988). It reads the marker with
  \<^verbatim>\<open>exists\<close>, enqueues for the generation type \<^verbatim>\<open>video\<close> only (the default when the
  record has no type), and writes the marker after the enqueue call returned. \<open>d\<close> is the
  local \<^verbatim>\<open>job_data\<close>, the empty dict standing for \<^verbatim>\<open>None\<close> as well (both are falsy).
\<close>

definition poll_generation_type :: "jdict \<Rightarrow> json" where
  "poll_generation_type d =
     (if d = [] then JStr ''video'' else dict_get_default d ''generation_type'' (JStr ''video''))"

definition poll_import_call :: "env \<Rightarrow> string \<Rightarrow> json \<Rightarrow> jdict \<Rightarrow> import_call" where
  "poll_import_call e jid result_url d =
     (let prompt = (if d = [] then JStr [] else dict_get_default d ''prompt'' (JStr []));
          model = (if d = [] then JStr ''unknown''
                   else dict_get_default d ''model'' (JStr ''unknown''))
      in \<lparr>ic_kind = VideoImport, ic_url = result_url,
          ic_name = ''AI_Video_'' @ take 8 jid @ ''.mp4'',
          ic_user_id = default_user, ic_asset_id = uuid4 e,
          ic_metadata = import_metadata prompt model jid\<rparr>)"

definition poll_import :: "env \<Rightarrow> string \<Rightarrow> bool \<Rightarrow> poll_vars \<Rightarrow> world \<Rightarrow> world" where
  "poll_import e jid auto_import v w =
     (if auto_import \<and> v_status v = JStr ''succeeded'' \<and> truthy (v_result_url v) then
        (if jid \<in> imported w then w
         else
           let d = (case v_job_data v of None \<Rightarrow> [] | Some d \<Rightarrow> d)
           in if poll_generation_type d = JStr ''video'' then
                let call = poll_import_call e jid (v_result_url v) d;
                    w1 = record_import_call call w
                in case enqueue e call of
                     None \<Rightarrow> log_error ''Failed to auto-trigger import from polling'' w1
                   | Some import_job \<Rightarrow>
                       if d = [] then setex_imported jid w1
                       else setex_job jid
                              (AList.update ''import_job_id'' (JStr import_job)
                                (AList.update ''asset_id'' (JStr (uuid4 e)) d))
                              (setex_imported jid w1)
              else w)
      else w)"

definition poll_response :: "poll_vars \<Rightarrow> response" where
  "poll_response v =
     Ok200 [(''status'', v_status v), (''result_url'', v_result_url v),
            (''output'', v_output v), (''error'', v_error v)]"

text \<open>
  \<^verbatim>\<open>get_ai_job_status\<close> (lines 1834-2005). A stale cache is refreshed from the provider;
  without an API token the answer is 404 and the provider is not asked; when the
  provider call raises, the cached values are used if there is a cached record, and
  the answer is 404 otherwise.
\<close>

definition get_ai_job_status :: "env \<Rightarrow> string \<Rightarrow> bool \<Rightarrow> world \<Rightarrow> response \<times> world" where
  "get_ai_job_status e jid auto_import w =
     (let job_data = jobs w jid;
          v = cached_vars job_data
      in if should_refresh v then
           (case api_token e of
              None \<Rightarrow> (Err404, w)
            | Some token \<Rightarrow>
                if token = [] then (Err404, w)
                else
                  let w1 = record_provider_get jid w
                  in (case predictions_get e jid of
                       Some pr \<Rightarrow>
                         let v' = refreshed_vars e jid job_data pr;
                             w2 = (case v_job_data v' of
                                     None \<Rightarrow> w1
                                   | Some merged \<Rightarrow> setex_job jid merged w1)
                         in (poll_response v', poll_import e jid auto_import v' w2)
                     | None \<Rightarrow>
                         let w2 = log_error ''Failed to get job from Replicate'' w1
                         in if job_data \<noteq> None \<and> job_data \<noteq> Some []
                            then (poll_response v, poll_import e jid auto_import v w2)
                            else (Err404, w2)))
         else (poll_response v, poll_import e jid auto_import v w))"

section \<open>The two import triggers, one store operation at a time\<close>

text \<open>
  The reconcilers run in separate worker processes against one store, and the store
  serialises single commands only. Here each import trigger is cut at its store and
  queue calls: the state of a trigger is the call it makes next, together with its local
  variables. A step makes one call.
\<close>

datatype import_pc =
    CheckMarker
  | ReadJob
  | CallEnqueue import_call jdict
  | WriteMarker string jdict
  | WriteJob jdict
  | Done

text \<open>
  The webhook's trigger (lines 2278-2345): \<^verbatim>\<open>exists(import_key)\<close>, \<^verbatim>\<open>get(redis_key)\<close>,
  the enqueue call, \<^verbatim>\<open>setex(import_key)\<close>, \<^verbatim>\<open>setex(redis_key)\<close>.
\<close>

fun webhook_import_step :: "env \<Rightarrow> string \<Rightarrow> string \<Rightarrow> import_pc \<Rightarrow> world \<Rightarrow> import_pc \<times> world" where
  "webhook_import_step e jid url CheckMarker w =
     (if jid \<in> imported w then (Done, w) else (ReadJob, w))"
| "webhook_import_step e jid url ReadJob w =
     (case jobs w jid of
        None \<Rightarrow> (Done, w)
      | Some jd \<Rightarrow> (CallEnqueue (webhook_import_call e jid url jd) jd, w))"
| "webhook_import_step e jid url (CallEnqueue call jd) w =
     (case enqueue e call of
        None \<Rightarrow> (Done, log_error ''Failed to enqueue media import job'' (record_import_call call w))
      | Some import_job_id \<Rightarrow> (WriteMarker import_job_id jd, record_import_call call w))"
| "webhook_import_step e jid url (WriteMarker import_job_id jd) w =
     (WriteJob (AList.update ''import_job_id'' (JStr import_job_id)
                 (AList.update ''asset_id'' (JStr (uuid4 e)) jd)),
      setex_imported jid w)"
| "webhook_import_step e jid url (WriteJob jd) w = (Done, setex_job jid jd w)"
| "webhook_import_step e jid url Done w = (Done, w)"

text \<open>
  The poll's trigger (lines 1926-1981), entered with the local variables \<open>v\<close>:
  \<^verbatim>\<open>exists(import_key)\<close>, the enqueue call, \<^verbatim>\<open>setex(import_key)\<close>, \<^verbatim>\<open>setex(redis_key)\<close>.
\<close>

fun poll_import_step :: "env \<Rightarrow> string \<Rightarrow> bool \<Rightarrow> poll_vars \<Rightarrow> import_pc \<Rightarrow> world \<Rightarrow> import_pc \<times> world" where
  "poll_import_step e jid auto_import v CheckMarker w =
     (if auto_import \<and> v_status v = JStr ''succeeded'' \<and> truthy (v_result_url v) then
        (if jid \<in> imported w then (Done, w)
         else
           let d = (case v_job_data v of None \<Rightarrow> [] | Some d \<Rightarrow> d)
           in if poll_generation_type d = JStr ''video''
              then (CallEnqueue (poll_import_call e jid (v_result_url v) d) d, w)
              else (Done, w))
      else (Done, w))"
| "poll_import_step e jid auto_import v (CallEnqueue call d) w =
     (case enqueue e call of
        None \<Rightarrow> (Done, log_error ''Failed to auto-trigger import from polling''
                         (record_import_call call w))
      | Some import_job \<Rightarrow> (WriteMarker import_job d, record_import_call call w))"
| "poll_import_step e jid auto_import v (WriteMarker import_job d) w =
     (if d = [] then (Done, setex_imported jid w)
      else (WriteJob (AList.update ''import_job_id'' (JStr import_job)
                       (AList.update ''asset_id'' (JStr (uuid4 e)) d)),
            setex_imported jid w))"
| "poll_import_step e jid auto_import v (WriteJob d) w = (Done, setex_job jid d w)"
| "poll_import_step e jid auto_import v ReadJob w = (Done, w)"
| "poll_import_step e jid auto_import v Done w = (Done, w)"

text \<open>A trigger run on its own, for a number of steps.\<close>

fun webhook_import_steps :: "nat \<Rightarrow> env \<Rightarrow> string \<Rightarrow> string \<Rightarrow> import_pc \<times> world \<Rightarrow> import_pc \<times> world" where
  "webhook_import_steps 0 e jid url s = s"
| "webhook_import_steps (Suc n) e jid url s =
     webhook_import_steps n e jid url (webhook_import_step e jid url (fst s) (snd s))"

fun poll_import_steps :: "nat \<Rightarrow> env \<Rightarrow> string \<Rightarrow> bool \<Rightarrow> poll_vars \<Rightarrow> import_pc \<times> world \<Rightarrow> import_pc \<times> world" where
  "poll_import_steps 0 e jid auto_import v s = s"
| "poll_import_steps (Suc n) e jid auto_import v s =
     poll_import_steps n e jid auto_import v (poll_import_step e jid auto_import v (fst s) (snd s))"

text \<open>
  The two triggers for one job id, run under a schedule that names the process taking
  the next step. The webhook process has the environment \<open>ew\<close>, the poll process \<open>ep\<close>.
\<close>

datatype actor = WebhookProc | PollProc

record race =
  webhook_pc :: import_pc
  poll_pc :: import_pc
  shared :: world

definition race_step :: "env \<Rightarrow> env \<Rightarrow> string \<Rightarrow> string \<Rightarrow> poll_vars \<Rightarrow> actor \<Rightarrow> race \<Rightarrow> race" where
  "race_step ew ep jid url v a r =
     (case a of
        WebhookProc \<Rightarrow>
          (case webhook_import_step ew jid url (webhook_pc r) (shared r) of
             (pc, w) \<Rightarrow> \<lparr>webhook_pc = pc, poll_pc = poll_pc r, shared = w\<rparr>)
      | PollProc \<Rightarrow>
          (case poll_import_step ep jid True v (poll_pc r) (shared r) of
             (pc, w) \<Rightarrow> \<lparr>webhook_pc = webhook_pc r, poll_pc = pc, shared = w\<rparr>))"

fun run_schedule :: "env \<Rightarrow> env \<Rightarrow> string \<Rightarrow> string \<Rightarrow> poll_vars \<Rightarrow> actor list \<Rightarrow> race \<Rightarrow> race" where
  "run_schedule ew ep jid url v [] r = r"
| "run_schedule ew ep jid url v (a # as) r =
     run_schedule ew ep jid url v as (race_step ew ep jid url v a r)"

section \<open>Clip Dispatcher\<close>












section \<open>Generation Aggregator\<close>

datatype GenerationStatus = QUEUED | PROCESSING | COMPOSING | COMPLETED | FAILED | CANCELLED










section \<open>The words of the specification\<close>

text \<open>
  The specification calls a status terminal when it is succeeded, failed or canceled,
  and a cached record stale when it is missing, in a non-terminal status, or succeeded
  without a result URL.
\<close>

definition terminal :: "json \<Rightarrow> bool" where
  "terminal s = (s = JStr ''succeeded'' \<or> s = JStr ''failed'' \<or> s = JStr ''canceled'')"

definition stale :: "jdict option \<Rightarrow> bool" where
  "stale cached =
     (case cached of
        None \<Rightarrow> True
      | Some d \<Rightarrow>
          if terminal (dict_get d ''status'')
          then dict_get d ''status'' = JStr ''succeeded'' \<and> \<not> truthy (dict_get d ''result_url'')
          else True)"

text \<open>The store holds a record with the status \<^verbatim>\<open>queued\<close> for a job id.\<close>

definition has_queued_record :: "world \<Rightarrow> string \<Rightarrow> bool" where
  "has_queued_record w job_id =
     (case jobs w job_id of None \<Rightarrow> False | Some d \<Rightarrow> dict_get d ''status'' = JStr ''queued'')"

section \<open>Example inputs\<close>

text \<open>
  An environment in which the provider reports success with the output
  \<^verbatim>\<open>"http://x"\<close>, the submission of the clip with index 1 raises, and the import queue
  accepts every call; the store with nothing in it; a record as the dispatcher writes it.
\<close>

definition example_env :: env where
  "example_env =
     \<lparr>api_token = Some ''r8_token'',
      predictions_get = (\<lambda>jid. Some \<lparr>pred_status = ''succeeded'', pred_output = JStr ''http://x'',
                                     pred_error = JNull\<rparr>),
      predictions_create = (\<lambda>index prompt. if index = 1 then Inl ''provider error''
                                            else Inr (''pred-'' @ prompt)),
      enqueue = (\<lambda>call. Some ''import-1''),
      uuid4 = ''asset-1'',
      clip_uuid_hex = (\<lambda>index. ''0123456789abcdef''),
      now = ''2025-01-01T00:00:00''\<rparr>"

definition empty_world :: world where
  "empty_world =
     \<lparr>jobs = Map.empty, imported = {}, mappings = Map.empty, events = [], import_calls = [],
      provider_gets = [], error_log = []\<rparr>"

definition example_record :: jdict where
  "example_record =
     [(''job_id'', JStr ''job-1''), (''job_type'', JStr ''ai_generation''),
      (''prompt'', JStr ''a red fox''), (''model'', JStr ''wan-video/wan-2.5-t2v''),
      (''status'', JStr ''queued''), (''created_at'', JStr ''2025-01-01T00:00:00''),
      (''generation_type'', JStr ''video'')]"

definition succeeded_payload :: payload where
  "succeeded_payload =
     \<lparr>p_id = ''job-1'', p_status = ''succeeded'', p_output = JStr ''http://x'', p_error = None\<rparr>"

definition failed_payload :: payload where
  "failed_payload =
     \<lparr>p_id = ''job-1'', p_status = ''failed'', p_output = JNull, p_error = Some ''out of memory''\<rparr>"

definition world_with_job :: world where
  "world_with_job = setex_job ''job-1'' example_record empty_world"

definition succeeded_record :: jdict where
  "succeeded_record =
     AList.update ''result_url'' (JStr ''http://x'')
       (AList.update ''status'' (JStr ''succeeded'') example_record)"

definition failing_queue_env :: env where
  "failing_queue_env = example_env\<lparr>enqueue := (\<lambda>call. None)\<rparr>"

definition world_with_succeeded_job :: world where
  "world_with_succeeded_job = setex_job ''job-1'' succeeded_record empty_world"

definition no_token_env :: env where
  "no_token_env = example_env\<lparr>api_token := None\<rparr>"



text \<open>
  Both import triggers for the job \<^verbatim>\<open>job-1\<close>, started on a store that holds its succeeded
  record and no marker. In the interleaved schedule both processes read the marker
  before either has written it; in the sequential one the webhook's trigger has finished
  when the poll's starts.
\<close>

definition race_start :: race where
  "race_start = \<lparr>webhook_pc = CheckMarker, poll_pc = CheckMarker, shared = world_with_succeeded_job\<rparr>"

definition interleaved_schedule :: "actor list" where
  "interleaved_schedule =
     [WebhookProc, PollProc, WebhookProc, WebhookProc, PollProc, WebhookProc, PollProc,
      WebhookProc, PollProc]"

definition sequential_schedule :: "actor list" where
  "sequential_schedule =
     [WebhookProc, WebhookProc, WebhookProc, WebhookProc, WebhookProc,
      PollProc, PollProc, PollProc, PollProc]"

definition succeeded_no_url_record :: jdict where
  "succeeded_no_url_record = AList.update ''status'' (JStr ''succeeded'') example_record"

definition world_with_stale_job :: world where
  "world_with_stale_job = setex_job ''job-1'' succeeded_no_url_record empty_world"

definition failed_provider_env :: env where
  "failed_provider_env =
     example_env\<lparr>predictions_get :=
       (\<lambda>jid. Some \<lparr>pred_status = ''failed'', pred_output = JNull,
                     pred_error = JStr ''out of memory''\<rparr>)\<rparr>"











section \<open>Output Normalizer: the shapes of the specification\<close>

text \<open>
  C3 (as stated, refuted). The claim lists the output
  \<^verbatim>\<open>{"nested": ["no-match", "http://x"]}\<close> among those for which the normalizer returns
  \<^verbatim>\<open>"http://x"\<close>. The dict branch only inspects string values, so for this output no
  URL is returned.
\<close>

theorem extract_nested_counterexample:
  "fst (extract_result_from_output
         (JDict [(''nested'', JList [JStr ''no-match'', JStr ''http://x''])]))
   \<noteq> Some ''http://x''"
  by (simp add: url_keys_def dict_get_def)

text \<open>
  C3 (amended). For the outputs \<^verbatim>\<open>"http://x"\<close>, \<^verbatim>\<open>["http://x"]\<close>,
  \<^verbatim>\<open>{"video":"http://x"}\<close> and \<^verbatim>\<open>{"other":"http://x"}\<close> the normalizer returns
  \<^verbatim>\<open>"http://x"\<close> and the original value; for
  \<^verbatim>\<open>{"nested":["no-match","http://x"]}\<close> and for \<^verbatim>\<open>{"k":"not-a-url"}\<close> it returns no
  URL and the original object; for an absent output it returns (None, None).
\<close>

theorem extract_result_from_output_shapes:
  "extract_result_from_output (JStr ''http://x'') = (Some ''http://x'', JStr ''http://x'')
   \<and> extract_result_from_output (JList [JStr ''http://x''])
       = (Some ''http://x'', JList [JStr ''http://x''])
   \<and> extract_result_from_output (JDict [(''video'', JStr ''http://x'')])
       = (Some ''http://x'', JDict [(''video'', JStr ''http://x'')])
   \<and> extract_result_from_output (JDict [(''other'', JStr ''http://x'')])
       = (Some ''http://x'', JDict [(''other'', JStr ''http://x'')])
   \<and> extract_result_from_output
         (JDict [(''nested'', JList [JStr ''no-match'', JStr ''http://x''])])
       = (None, JDict [(''nested'', JList [JStr ''no-match'', JStr ''http://x''])])
   \<and> extract_result_from_output (JDict [(''k'', JStr ''not-a-url'')])
       = (None, JDict [(''k'', JStr ''not-a-url'')])
   \<and> extract_result_from_output JNull = (None, JNull)"
  by (simp add: url_keys_def dict_get_def)

section \<open>Lemmas on dicts and on the fields of the state\<close>

lemma map_of_update: "map_of (AList.update k v d) k' = (if k' = k then Some v else map_of d k')"
  by (simp add: update_conv')

lemma dict_get_update: "dict_get (AList.update k v d) k' = (if k' = k then v else dict_get d k')"
  by (simp add: dict_get_def map_of_update)

lemma publish_fields [simp]:
  "jobs (publish_job_update jid s w) = jobs w"
  "imported (publish_job_update jid s w) = imported w"
  "import_calls (publish_job_update jid s w) = import_calls w"
  "error_log (publish_job_update jid s w) = error_log w"
  "provider_gets (publish_job_update jid s w) = provider_gets w"
  by (simp_all add: publish_job_update_def)

lemma setex_job_fields [simp]:
  "jobs (setex_job jid d w) = (jobs w)(jid \<mapsto> d)"
  "imported (setex_job jid d w) = imported w"
  "import_calls (setex_job jid d w) = import_calls w"
  "error_log (setex_job jid d w) = error_log w"
  "provider_gets (setex_job jid d w) = provider_gets w"
  by (simp_all add: setex_job_def)

lemma setex_imported_fields [simp]:
  "jobs (setex_imported jid w) = jobs w"
  "imported (setex_imported jid w) = insert jid (imported w)"
  "import_calls (setex_imported jid w) = import_calls w"
  "error_log (setex_imported jid w) = error_log w"
  "provider_gets (setex_imported jid w) = provider_gets w"
  by (simp_all add: setex_imported_def)

lemma log_error_fields [simp]:
  "jobs (log_error m w) = jobs w"
  "imported (log_error m w) = imported w"
  "import_calls (log_error m w) = import_calls w"
  "error_log (log_error m w) = error_log w @ [m]"
  "provider_gets (log_error m w) = provider_gets w"
  by (simp_all add: log_error_def)

lemma record_import_call_fields [simp]:
  "jobs (record_import_call c w) = jobs w"
  "imported (record_import_call c w) = imported w"
  "import_calls (record_import_call c w) = import_calls w @ [c]"
  "error_log (record_import_call c w) = error_log w"
  "provider_gets (record_import_call c w) = provider_gets w"
  by (simp_all add: record_import_call_def)

lemma record_provider_get_fields [simp]:
  "jobs (record_provider_get j w) = jobs w"
  "imported (record_provider_get j w) = imported w"
  "import_calls (record_provider_get j w) = import_calls w"
  "error_log (record_provider_get j w) = error_log w"
  "provider_gets (record_provider_get j w) = provider_gets w @ [j]"
  by (simp_all add: record_provider_get_def)

lemma webhook_import_jobs:
  assumes "jobs w jid = Some jd"
  shows "\<exists>jd1. jobs (webhook_import e jid u w) jid = Some jd1
            \<and> (\<forall>k. k \<noteq> ''asset_id'' \<and> k \<noteq> ''import_job_id'' \<longrightarrow> map_of jd1 k = map_of jd k)"
  using assms
  by (auto simp: webhook_import_def Let_def map_of_update split: option.splits)

lemma webhook_merge_map_of:
  "map_of (webhook_merge e p url n jd) k =
     (if k = ''output'' \<and> truthy (py_or n (p_output p)) then Some (py_or n (p_output p))
      else if k = ''error'' \<and> p_error p \<noteq> None \<and> p_error p \<noteq> Some [] then Some (JStr (the (p_error p)))
      else if k = ''result_url'' \<and> url \<noteq> None \<and> url \<noteq> Some [] then Some (JStr (the url))
      else if k = ''updated_at'' then Some (JStr (now e))
      else if k = ''status'' then Some (JStr (p_status p))
      else map_of jd k)"
  by (auto simp: webhook_merge_def Let_def map_of_update split: option.splits)

lemma webhook_jobs:
  assumes "jobs w (p_id p) = Some jd" and "valid_output (p_output p)"
  shows "\<exists>jd1. jobs (snd (replicate_webhook e p w)) (p_id p)
              = Some (webhook_merge e p (fst (extract_result_from_output (p_output p)))
                        (snd (extract_result_from_output (p_output p))) jd1)
            \<and> (\<forall>k. k \<noteq> ''asset_id'' \<and> k \<noteq> ''import_job_id'' \<longrightarrow> map_of jd1 k = map_of jd k)"
proof -
  obtain url n where ex: "extract_result_from_output (p_output p) = (url, n)"
    by (cases "extract_result_from_output (p_output p)")
  define w1 where "w1 =
     (if p_status p = ''succeeded'' then
                      (case url of
                         None \<Rightarrow> publish_job_update (p_id p) ''succeeded'' w
                       | Some u \<Rightarrow>
                           if u \<noteq> []
                           then webhook_import e (p_id p) u
                                  (publish_job_update (p_id p) ''succeeded'' w)
                           else publish_job_update (p_id p) ''succeeded'' w)
                    else if p_status p = ''failed'' then publish_job_update (p_id p) ''failed'' w
                    else if p_status p = ''canceled'' then publish_job_update (p_id p) ''canceled'' w
                    else w)"
  have r: "snd (replicate_webhook e p w) = webhook_update e p url n w1"
    using assms(2) by (simp add: replicate_webhook_def ex w1_def Let_def)
  have pj: "jobs (publish_job_update (p_id p) s w) (p_id p) = Some jd" for s
    using assms(1) by simp
  have "\<exists>jd1. jobs w1 (p_id p) = Some jd1
            \<and> (\<forall>k. k \<noteq> ''asset_id'' \<and> k \<noteq> ''import_job_id'' \<longrightarrow> map_of jd1 k = map_of jd k)"
    unfolding w1_def using webhook_import_jobs [OF pj] assms(1)
    by (auto split: option.splits)
  then obtain jd1 where j1: "jobs w1 (p_id p) = Some jd1"
    and k1: "\<forall>k. k \<noteq> ''asset_id'' \<and> k \<noteq> ''import_job_id'' \<longrightarrow> map_of jd1 k = map_of jd k"
    by blast
  have "jobs (webhook_update e p url n w1) (p_id p) = Some (webhook_merge e p url n jd1)"
    using j1 by (simp add: webhook_update_def)
  with r ex k1 show ?thesis by auto
qed


lemma should_refresh_stale: "should_refresh (cached_vars c) = stale c"
  by (auto simp: should_refresh_def cached_vars_def stale_def terminal_def dict_get_def
        dict_get_default_def split: option.splits)

lemma poll_import_provider_gets [simp]:
  "provider_gets (poll_import e jid ai v w) = provider_gets w"
  by (simp add: poll_import_def Let_def split: option.splits)

lemma poll_import_jobs:
  assumes "jobs w jid = Some d" and "v_job_data v = Some d"
  shows "\<exists>d1. jobs (poll_import e jid ai v w) jid = Some d1
            \<and> (\<forall>k. k \<noteq> ''asset_id'' \<and> k \<noteq> ''import_job_id'' \<longrightarrow> map_of d1 k = map_of d k)"
  using assms
  by (auto simp: poll_import_def Let_def map_of_update split: option.splits)

lemma poll_merge_map_of:
  "map_of (poll_merge e jid job_data st url out err) k =
     (if k = ''updated_at'' then Some (JStr (now e))
      else if k = ''error'' then Some err
      else if k = ''output'' then Some out
      else if k = ''result_url'' then Some url
      else if k = ''status'' then Some st
      else if k = ''job_id'' then Some (JStr jid)
      else (case job_data of None \<Rightarrow> None | Some d \<Rightarrow> map_of d k))"
  by (auto simp: poll_merge_def map_of_update split: option.splits)

lemma cached_vars_job_data [simp]: "v_job_data (cached_vars c) = c"
  by (simp add: cached_vars_def split: option.splits)

lemma refreshed_vars_job_data:
  "v_job_data (refreshed_vars e jid c pr) =
     Some (poll_merge e jid c (JStr (status_map (pred_status pr)))
             (json_of_url (fst (extract_result_from_output (pred_output pr))))
             (py_or (snd (extract_result_from_output (pred_output pr))) (pred_output pr))
             (pred_error pr))"
  by (simp add: refreshed_vars_def Let_def split: prod.splits)

lemma poll_fresh:
  assumes "\<not> stale (jobs w jid)"
  shows "get_ai_job_status e jid ai w
           = (poll_response (cached_vars (jobs w jid)), poll_import e jid ai (cached_vars (jobs w jid)) w)"
  using assms by (simp add: get_ai_job_status_def Let_def should_refresh_stale)

lemma poll_refreshed:
  assumes "stale (jobs w jid)" and "api_token e = Some token" and "token \<noteq> []"
    and "predictions_get e jid = Some pr"
  shows "get_ai_job_status e jid ai w
           = (poll_response (refreshed_vars e jid (jobs w jid) pr),
              poll_import e jid ai (refreshed_vars e jid (jobs w jid) pr)
                (setex_job jid (the (v_job_data (refreshed_vars e jid (jobs w jid) pr)))
                   (record_provider_get jid w)))"
  using assms
  by (simp add: get_ai_job_status_def Let_def should_refresh_stale refreshed_vars_job_data)

lemma poll_jobs:
  assumes "jobs w jid = Some jd"
  shows "\<exists>jd'. jobs (snd (get_ai_job_status e jid ai w)) jid = Some jd'
          \<and> (\<forall>k. k \<notin> {''job_id'', ''status'', ''result_url'', ''output'', ''error'', ''updated_at'',
                        ''asset_id'', ''import_job_id''} \<longrightarrow> map_of jd' k = map_of jd k)"
proof (cases "stale (jobs w jid)")
  case False
  then show ?thesis
    using poll_import_jobs [OF assms, of "cached_vars (jobs w jid)" e ai] assms
    by (auto simp: poll_fresh)
next
  case True
  show ?thesis
  proof (cases "api_token e")
    case None
    then show ?thesis using True assms
      by (simp add: get_ai_job_status_def Let_def should_refresh_stale)
  next
    case (Some token)
    show ?thesis
    proof (cases "token = []")
      case True
      then show ?thesis using \<open>stale (jobs w jid)\<close> assms Some
        by (simp add: get_ai_job_status_def Let_def should_refresh_stale)
    next
      case False
      show ?thesis
      proof (cases "predictions_get e jid")
        case None
        then show ?thesis
          using \<open>stale (jobs w jid)\<close> assms Some False
            poll_import_jobs [of "log_error ''Failed to get job from Replicate'' (record_provider_get jid w)"
               jid jd "cached_vars (jobs w jid)" e ai]
          by (auto simp: get_ai_job_status_def Let_def should_refresh_stale)
      next
        case (Some pr)
        let ?v = "refreshed_vars e jid (jobs w jid) pr"
        obtain m where m: "v_job_data ?v = Some m"
          and mk: "\<forall>k. k \<notin> {''job_id'', ''status'', ''result_url'', ''output'', ''error'', ''updated_at''}
                     \<longrightarrow> map_of m k = map_of jd k"
          using assms by (auto simp: refreshed_vars_job_data poll_merge_map_of)
        have "jobs (setex_job jid m (record_provider_get jid w)) jid = Some m" by simp
        from poll_import_jobs [OF this m, of e ai]
        obtain d1 where "jobs (poll_import e jid ai ?v (setex_job jid m (record_provider_get jid w))) jid = Some d1"
          and "\<forall>k. k \<noteq> ''asset_id'' \<and> k \<noteq> ''import_job_id'' \<longrightarrow> map_of d1 k = map_of m k"
          by blast
        then show ?thesis
          using poll_refreshed [OF \<open>stale (jobs w jid)\<close> \<open>api_token e = Some token\<close> False Some] m mk
          by auto
      qed
    qed
  qed
qed

lemma poll_import_jobs_dict:
  assumes "jobs w jid = Some d" and "v_job_data v = Some d"
  shows "\<exists>d1. jobs (poll_import e jid ai v w) jid = Some d1
            \<and> dict_get d1 ''status'' = dict_get d ''status''
            \<and> dict_get d1 ''result_url'' = dict_get d ''result_url''
            \<and> dict_get d1 ''error'' = dict_get d ''error''"
proof -
  from poll_import_jobs [OF assms, of e ai] obtain d1 where
    j: "jobs (poll_import e jid ai v w) jid = Some d1"
    and k: "\<forall>k. k \<noteq> ''asset_id'' \<and> k \<noteq> ''import_job_id'' \<longrightarrow> map_of d1 k = map_of d k"
    by (elim exE conjE)
  have "dict_get d1 ''status'' = dict_get d ''status''"
    using k [THEN spec, of "''status''"] by (simp add: dict_get_def)
  moreover have "dict_get d1 ''result_url'' = dict_get d ''result_url''"
    using k [THEN spec, of "''result_url''"] by (simp add: dict_get_def)
  moreover have "dict_get d1 ''error'' = dict_get d ''error''"
    using k [THEN spec, of "''error''"] by (simp add: dict_get_def)
  ultimately show ?thesis using j by simp
qed

lemma webhook_merge_status: "dict_get (webhook_merge e p url n jd) ''status'' = JStr (p_status p)"
  by (simp add: dict_get_def webhook_merge_map_of)

lemma webhook_merge_result_url:
  "dict_get (webhook_merge e p url n jd) ''result_url'' =
     (case url of None \<Rightarrow> dict_get jd ''result_url''
      | Some u \<Rightarrow> if u \<noteq> [] then JStr u else dict_get jd ''result_url'')"
  by (simp add: dict_get_def webhook_merge_map_of split: option.splits)

lemma webhook_merge_error:
  "dict_get (webhook_merge e p url n jd) ''error'' =
     (case p_error p of None \<Rightarrow> dict_get jd ''error''
      | Some er \<Rightarrow> if er \<noteq> [] then JStr er else dict_get jd ''error'')"
  by (simp add: dict_get_def webhook_merge_map_of split: option.splits)

section \<open>Webhook for an unknown job\<close>

text \<open>
  C5 (as stated, refuted). The claim says that a webhook for an unknown job id creates a
  new job record. The update of the record is guarded by \<^verbatim>\<open>if job_data_str:\<close>, so
  after a webhook for the job \<^verbatim>\<open>job-1\<close> on an empty store there is still no record of it.
\<close>

theorem webhook_unknown_job_counterexample:
  "jobs (snd (replicate_webhook example_env succeeded_payload empty_world)) ''job-1'' = None"
  by (simp add: replicate_webhook_def example_env_def succeeded_payload_def empty_world_def
        webhook_update_def webhook_import_def publish_job_update_def)

text \<open>
  C5 (amended). A well-formed webhook for a job id without a record is answered with
  200 and \<^verbatim>\<open>{"status": "ok", "job_id": ...}\<close>, and it creates no record: the job store, the
  markers and the import queue are as they were.
\<close>

theorem webhook_unknown_job_leaves_store:
  assumes "jobs w (p_id p) = None" and "valid_output (p_output p)"
  shows "fst (replicate_webhook e p w) = Ok200 [(''status'', JStr ''ok''), (''job_id'', JStr (p_id p))]
    \<and> jobs (snd (replicate_webhook e p w)) = jobs w
    \<and> imported (snd (replicate_webhook e p w)) = imported w
    \<and> import_calls (snd (replicate_webhook e p w)) = import_calls w"
  using assms
  by (auto simp: replicate_webhook_def Let_def webhook_import_def webhook_update_def
           split: prod.splits option.splits)

theorem webhook_unknown_job_leaves_store_witness:
  "jobs empty_world (p_id succeeded_payload) = None \<and> valid_output (p_output succeeded_payload)
   \<and> fst (replicate_webhook example_env succeeded_payload empty_world)
       = Ok200 [(''status'', JStr ''ok''), (''job_id'', JStr ''job-1'')]
   \<and> jobs (snd (replicate_webhook example_env succeeded_payload empty_world)) = Map.empty
   \<and> imported (snd (replicate_webhook example_env succeeded_payload empty_world)) = {}
   \<and> import_calls (snd (replicate_webhook example_env succeeded_payload empty_world)) = []"
proof -
  have h1: "jobs empty_world (p_id succeeded_payload) = None"
    by (simp add: empty_world_def)
  have h2: "valid_output (p_output succeeded_payload)"
    by (simp add: succeeded_payload_def)
  from webhook_unknown_job_leaves_store [OF h1 h2, of example_env] h1 h2
  show ?thesis by (simp add: empty_world_def succeeded_payload_def)
qed

section \<open>The update of a record is a merge of fields\<close>

text \<open>
  C9. When a record exists for the job, the webhook leaves every field outside
  \<^verbatim>\<open>status\<close>, \<^verbatim>\<open>updated_at\<close>, \<^verbatim>\<open>result_url\<close>, \<^verbatim>\<open>error\<close>, \<^verbatim>\<open>output\<close>, \<^verbatim>\<open>asset_id\<close>,
  \<^verbatim>\<open>import_job_id\<close> as it was, and the poll every field outside these and \<^verbatim>\<open>job_id\<close>; in
  particular \<^verbatim>\<open>prompt\<close> and \<^verbatim>\<open>model\<close> keep the values set at creation, and the record
  is never replaced as a whole.
\<close>

theorem reconciler_update_is_field_merge:
  assumes "jobs w jid = Some jd"
  shows "(p_id p = jid \<longrightarrow>
           (\<exists>jd'. jobs (snd (replicate_webhook e p w)) jid = Some jd'
              \<and> (\<forall>k. k \<notin> {''status'', ''updated_at'', ''result_url'', ''error'', ''output'',
                            ''asset_id'', ''import_job_id''} \<longrightarrow> map_of jd' k = map_of jd k)))
       \<and> (\<exists>jd'. jobs (snd (get_ai_job_status e jid auto_import w)) jid = Some jd'
              \<and> (\<forall>k. k \<notin> {''job_id'', ''status'', ''result_url'', ''output'', ''error'',
                            ''updated_at'', ''asset_id'', ''import_job_id''}
                     \<longrightarrow> map_of jd' k = map_of jd k))"
proof (intro conjI impI)
  assume pid: "p_id p = jid"
  show "\<exists>jd'. jobs (snd (replicate_webhook e p w)) jid = Some jd'
              \<and> (\<forall>k. k \<notin> {''status'', ''updated_at'', ''result_url'', ''error'', ''output'',
                            ''asset_id'', ''import_job_id''} \<longrightarrow> map_of jd' k = map_of jd k)"
  proof (cases "valid_output (p_output p)")
    case False
    then show ?thesis using assms by (simp add: replicate_webhook_def)
  next
    case True
    from webhook_jobs [OF _ True, of w jd e] assms pid
    obtain jd1 where j: "jobs (snd (replicate_webhook e p w)) jid
              = Some (webhook_merge e p (fst (extract_result_from_output (p_output p)))
                        (snd (extract_result_from_output (p_output p))) jd1)"
      and k1: "\<forall>k. k \<noteq> ''asset_id'' \<and> k \<noteq> ''import_job_id'' \<longrightarrow> map_of jd1 k = map_of jd k"
      by auto
    show ?thesis using j k1 by (simp add: webhook_merge_map_of)
  qed
next
  show "\<exists>jd'. jobs (snd (get_ai_job_status e jid auto_import w)) jid = Some jd'
              \<and> (\<forall>k. k \<notin> {''job_id'', ''status'', ''result_url'', ''output'', ''error'',
                            ''updated_at'', ''asset_id'', ''import_job_id''}
                     \<longrightarrow> map_of jd' k = map_of jd k)"
    by (rule poll_jobs [OF assms])
qed

theorem reconciler_update_is_field_merge_witness:
  "jobs world_with_job ''job-1'' = Some example_record \<and> p_id failed_payload = ''job-1''
   \<and> (\<exists>jd'. jobs (snd (replicate_webhook example_env failed_payload world_with_job)) ''job-1'' = Some jd'
          \<and> map_of jd' ''prompt'' = Some (JStr ''a red fox'')
          \<and> map_of jd' ''model'' = Some (JStr ''wan-video/wan-2.5-t2v''))
   \<and> (\<exists>jd'. jobs (snd (get_ai_job_status example_env ''job-1'' True world_with_job)) ''job-1'' = Some jd'
          \<and> map_of jd' ''prompt'' = Some (JStr ''a red fox'')
          \<and> map_of jd' ''model'' = Some (JStr ''wan-video/wan-2.5-t2v''))"
proof -
  have h: "jobs world_with_job ''job-1'' = Some example_record"
    by (simp add: world_with_job_def)
  have p: "p_id failed_payload = ''job-1''"
    by (simp add: failed_payload_def)
  have m: "map_of example_record ''prompt'' = Some (JStr ''a red fox'')"
    "map_of example_record ''model'' = Some (JStr ''wan-video/wan-2.5-t2v'')"
    by (simp_all add: example_record_def)
  note T = reconciler_update_is_field_merge [OF h, of failed_payload example_env True]
  from conjunct1 [OF T] p obtain a where
    a: "jobs (snd (replicate_webhook example_env failed_payload world_with_job)) ''job-1'' = Some a
        \<and> (\<forall>k. k \<notin> {''status'', ''updated_at'', ''result_url'', ''error'', ''output'',
                            ''asset_id'', ''import_job_id''} \<longrightarrow> map_of a k = map_of example_record k)"
    by (elim impE exE) assumption
  from conjunct2 [OF T] obtain b where
    b: "jobs (snd (get_ai_job_status example_env ''job-1'' True world_with_job)) ''job-1'' = Some b
       \<and> (\<forall>k. k \<notin> {''job_id'', ''status'', ''result_url'', ''output'', ''error'',
                            ''updated_at'', ''asset_id'', ''import_job_id''}
                     \<longrightarrow> map_of b k = map_of example_record k)"
    by (elim exE)
  have ap: "map_of a ''prompt'' = map_of example_record ''prompt''"
    using a [THEN conjunct2, THEN spec, of "''prompt''"] by simp
  have am: "map_of a ''model'' = map_of example_record ''model''"
    using a [THEN conjunct2, THEN spec, of "''model''"] by simp
  have bp: "map_of b ''prompt'' = map_of example_record ''prompt''"
    using b [THEN conjunct2, THEN spec, of "''prompt''"] by simp
  have bm: "map_of b ''model'' = map_of example_record ''model''"
    using b [THEN conjunct2, THEN spec, of "''model''"] by simp
  from a have a1: "jobs (snd (replicate_webhook example_env failed_payload world_with_job)) ''job-1'' = Some a" ..
  from b have b1: "jobs (snd (get_ai_job_status example_env ''job-1'' True world_with_job)) ''job-1'' = Some b" ..
  show ?thesis
    using h p a1 b1 ap am bp bm m by (intro conjI exI [of _ a] exI [of _ b]) simp_all
qed

section \<open>Failure of the import queue\<close>

lemma webhook_update_fields [simp]:
  "imported (webhook_update e p url n w) = imported w"
  "import_calls (webhook_update e p url n w) = import_calls w"
  "error_log (webhook_update e p url n w) = error_log w"
  by (simp_all add: webhook_update_def split: option.splits)

lemma webhook_enqueue_fails:
  assumes "jobs w jid = Some jd" and "jid \<notin> imported w" and "p_id p = jid"
    and "p_status p = ''succeeded''" and "valid_output (p_output p)"
    and "fst (extract_result_from_output (p_output p)) = Some u" and "u \<noteq> []"
    and "\<forall>call. enqueue e call = None"
  shows "snd (replicate_webhook e p w) =
           setex_job jid (webhook_merge e p (Some u) (snd (extract_result_from_output (p_output p))) jd)
             (log_error ''Failed to enqueue media import job''
               (record_import_call (webhook_import_call e jid u jd)
                 (publish_job_update jid ''succeeded'' w)))"
proof -
  obtain n where ex: "extract_result_from_output (p_output p) = (Some u, n)"
    using assms(6) by (cases "extract_result_from_output (p_output p)") simp
  have i: "webhook_import e jid u (publish_job_update jid ''succeeded'' w)
        = log_error ''Failed to enqueue media import job''
               (record_import_call (webhook_import_call e jid u jd)
                 (publish_job_update jid ''succeeded'' w))"
    using assms(1,2,8) by (simp add: webhook_import_def Let_def)
  show ?thesis
    using assms(1,3,4,5,7) ex i
    by (simp add: replicate_webhook_def Let_def webhook_update_def)
qed

text \<open>
  C8 (as stated, refuted). The claim says that after a failed enqueue a retry of the same
  success event makes no second import attempt. The marker is written only after the
  enqueue call returned, so after a failure it is not there, and the same webhook,
  delivered again, calls the import queue again: two calls after two deliveries.
\<close>

theorem enqueue_failure_retry_counterexample:
  "length (import_calls (snd (replicate_webhook failing_queue_env succeeded_payload
             (snd (replicate_webhook failing_queue_env succeeded_payload world_with_job))))) = 2"
proof -
  have e: "\<forall>call. enqueue failing_queue_env call = None"
    by (simp add: failing_queue_env_def)
  have p: "p_id succeeded_payload = ''job-1''" "p_status succeeded_payload = ''succeeded''"
    "valid_output (p_output succeeded_payload)"
    "fst (extract_result_from_output (p_output succeeded_payload)) = Some ''http://x''"
    by (simp_all add: succeeded_payload_def)
  have u: "''http://x'' \<noteq> []" by simp
  have j: "jobs world_with_job ''job-1'' = Some example_record"
    by (simp add: world_with_job_def)
  have m: "''job-1'' \<notin> imported world_with_job"
    by (simp add: world_with_job_def empty_world_def)
  note first = webhook_enqueue_fails [OF j m p u e]
  let ?w1 = "snd (replicate_webhook failing_queue_env succeeded_payload world_with_job)"
  have j1: "jobs ?w1 ''job-1'' = Some (webhook_merge failing_queue_env succeeded_payload (Some ''http://x'')
              (snd (extract_result_from_output (p_output succeeded_payload))) example_record)"
    by (simp add: first)
  have m1: "''job-1'' \<notin> imported ?w1" using m by (simp add: first)
  have l: "import_calls world_with_job = []"
    by (simp add: world_with_job_def empty_world_def)
  have c1: "length (import_calls ?w1) = 1"
    by (subst first) (simp add: l)
  show ?thesis
    using c1 by (subst webhook_enqueue_fails [OF j1 m1 p u e]) simp
qed

text \<open>
  C8 (amended). When the enqueue call fails for a succeeded job with a result URL and a
  stored record, the webhook logs the failure and still stores the status
  \<^verbatim>\<open>succeeded\<close>; the marker of the job has not been written, and a second delivery of the
  same event makes another import attempt.
\<close>

theorem enqueue_failure_keeps_status_and_leaves_marker_unset:
  assumes "jobs w jid = Some jd" and "jid \<notin> imported w" and "p_id p = jid"
    and "p_status p = ''succeeded''" and "valid_output (p_output p)"
    and "fst (extract_result_from_output (p_output p)) = Some u" and "u \<noteq> []"
    and "\<forall>call. enqueue e call = None"
  shows "error_log (snd (replicate_webhook e p w))
           = error_log w @ [''Failed to enqueue media import job'']
       \<and> map_option (\<lambda>d. dict_get d ''status'') (jobs (snd (replicate_webhook e p w)) jid)
           = Some (JStr ''succeeded'')
       \<and> jid \<notin> imported (snd (replicate_webhook e p w))
       \<and> length (import_calls (snd (replicate_webhook e p w))) = length (import_calls w) + 1
       \<and> length (import_calls (snd (replicate_webhook e p (snd (replicate_webhook e p w)))))
           = length (import_calls w) + 2"
proof -
  let ?w1 = "snd (replicate_webhook e p w)"
  let ?jd1 = "webhook_merge e p (Some u) (snd (extract_result_from_output (p_output p))) jd"
  note first = webhook_enqueue_fails [OF assms]
  have j1: "jobs ?w1 jid = Some ?jd1" by (simp add: first)
  have m1: "jid \<notin> imported ?w1" using assms(2) by (simp add: first)
  note second = webhook_enqueue_fails [OF j1 m1 assms(3-8)]
  have "error_log ?w1 = error_log w @ [''Failed to enqueue media import job'']"
    by (simp add: first)
  moreover have "map_option (\<lambda>d. dict_get d ''status'') (jobs ?w1 jid) = Some (JStr ''succeeded'')"
    using assms(4) by (simp add: j1 webhook_merge_status)
  moreover have "length (import_calls ?w1) = length (import_calls w) + 1"
    by (simp add: first)
  moreover have "length (import_calls (snd (replicate_webhook e p ?w1))) = length (import_calls ?w1) + 1"
    by (subst second) simp
  ultimately show ?thesis using m1 by simp
qed

theorem enqueue_failure_keeps_status_and_leaves_marker_unset_witness:
  "jobs world_with_job ''job-1'' = Some example_record \<and> ''job-1'' \<notin> imported world_with_job
   \<and> p_id succeeded_payload = ''job-1'' \<and> p_status succeeded_payload = ''succeeded''
   \<and> valid_output (p_output succeeded_payload)
   \<and> fst (extract_result_from_output (p_output succeeded_payload)) = Some ''http://x''
   \<and> (\<forall>call. enqueue failing_queue_env call = None)
   \<and> error_log (snd (replicate_webhook failing_queue_env succeeded_payload world_with_job))
        = [''Failed to enqueue media import job'']
   \<and> map_option (\<lambda>d. dict_get d ''status'')
        (jobs (snd (replicate_webhook failing_queue_env succeeded_payload world_with_job)) ''job-1'')
        = Some (JStr ''succeeded'')
   \<and> ''job-1'' \<notin> imported (snd (replicate_webhook failing_queue_env succeeded_payload world_with_job))
   \<and> length (import_calls (snd (replicate_webhook failing_queue_env succeeded_payload world_with_job))) = 1"
proof -
  have e: "\<forall>call. enqueue failing_queue_env call = None"
    by (simp add: failing_queue_env_def)
  have p: "p_id succeeded_payload = ''job-1''" "p_status succeeded_payload = ''succeeded''"
    "valid_output (p_output succeeded_payload)"
    "fst (extract_result_from_output (p_output succeeded_payload)) = Some ''http://x''"
    by (simp_all add: succeeded_payload_def)
  have u: "''http://x'' \<noteq> []" by simp
  have j: "jobs world_with_job ''job-1'' = Some example_record"
    by (simp add: world_with_job_def)
  have m: "''job-1'' \<notin> imported world_with_job"
    by (simp add: world_with_job_def empty_world_def)
  have l: "error_log world_with_job = []" "import_calls world_with_job = []"
    by (simp_all add: world_with_job_def empty_world_def)
  from enqueue_failure_keeps_status_and_leaves_marker_unset [OF j m p u e] j m p e l
  show ?thesis by simp
qed

section \<open>When the poll asks the provider\<close>

text \<open>
  C7 (as stated, refuted). The claim says that the provider is asked if and only if the
  cached record is stale. Without an API token a stale query is answered 404 and the
  provider is not asked.
\<close>

theorem poll_without_token_counterexample:
  "stale (jobs empty_world ''job-1'')
   \<and> get_ai_job_status no_token_env ''job-1'' True empty_world = (Err404, empty_world)
   \<and> provider_gets empty_world = []"
  by (simp add: get_ai_job_status_def should_refresh_stale stale_def no_token_env_def
        example_env_def empty_world_def)

lemma poll_response_cached:
  assumes "\<not> stale (Some d)"
  shows "poll_response (cached_vars (Some d)) =
           Ok200 [(''status'', dict_get d ''status''), (''result_url'', dict_get d ''result_url''),
                  (''output'', dict_get d ''output''), (''error'', dict_get d ''error'')]"
proof -
  have t: "terminal (dict_get d ''status'')"
    using assms by (simp add: stale_def split: if_splits)
  then have "map_of d ''status'' \<noteq> None"
    by (auto simp: terminal_def dict_get_def split: option.splits)
  then have "d \<noteq> []" and "dict_get_default d ''status'' (JStr ''processing'') = dict_get d ''status''"
    by (auto simp: dict_get_default_def dict_get_def)
  then show ?thesis
    by (simp add: poll_response_def cached_vars_def)
qed

lemma poll_provider_gets:
  assumes "api_token e = Some token" and "token \<noteq> []"
  shows "provider_gets (snd (get_ai_job_status e jid ai w))
           = (if stale (jobs w jid) then provider_gets w @ [jid] else provider_gets w)"
  using assms
  by (simp add: get_ai_job_status_def Let_def should_refresh_stale refreshed_vars_job_data
        split: option.splits)

lemma poll_refresh_stored:
  assumes "stale (jobs w jid)" and "api_token e = Some token" and "token \<noteq> []"
    and "predictions_get e jid = Some pr"
  shows "\<exists>jd'. jobs (snd (get_ai_job_status e jid ai w)) jid = Some jd'
          \<and> dict_get jd' ''status'' = JStr (status_map (pred_status pr))
          \<and> dict_get jd' ''result_url'' = json_of_url (fst (extract_result_from_output (pred_output pr)))
          \<and> dict_get jd' ''output'' = py_or (snd (extract_result_from_output (pred_output pr))) (pred_output pr)
          \<and> dict_get jd' ''error'' = pred_error pr"
proof -
  let ?v = "refreshed_vars e jid (jobs w jid) pr"
  let ?m = "poll_merge e jid (jobs w jid) (JStr (status_map (pred_status pr)))
             (json_of_url (fst (extract_result_from_output (pred_output pr))))
             (py_or (snd (extract_result_from_output (pred_output pr))) (pred_output pr))
             (pred_error pr)"
  have m: "v_job_data ?v = Some ?m" by (rule refreshed_vars_job_data)
  have j: "jobs (setex_job jid ?m (record_provider_get jid w)) jid = Some ?m" by simp
  from poll_import_jobs [OF j m, of e ai] obtain d1 where
    d1: "jobs (poll_import e jid ai ?v (setex_job jid ?m (record_provider_get jid w))) jid = Some d1"
    and k: "\<forall>k. k \<noteq> ''asset_id'' \<and> k \<noteq> ''import_job_id'' \<longrightarrow> map_of d1 k = map_of ?m k"
    by (elim exE conjE)
  have r: "jobs (snd (get_ai_job_status e jid ai w)) jid = Some d1"
    using d1 by (simp add: poll_refreshed [OF assms] m)
  have "dict_get d1 ''status'' = JStr (status_map (pred_status pr))"
    using k [THEN spec, of "''status''"] by (simp add: dict_get_def poll_merge_map_of)
  moreover have "dict_get d1 ''result_url'' = json_of_url (fst (extract_result_from_output (pred_output pr)))"
    using k [THEN spec, of "''result_url''"] by (simp add: dict_get_def poll_merge_map_of)
  moreover have "dict_get d1 ''output'' = py_or (snd (extract_result_from_output (pred_output pr))) (pred_output pr)"
    using k [THEN spec, of "''output''"] by (simp add: dict_get_def poll_merge_map_of)
  moreover have "dict_get d1 ''error'' = pred_error pr"
    using k [THEN spec, of "''error''"] by (simp add: dict_get_def poll_merge_map_of)
  ultimately show ?thesis using r by simp
qed

text \<open>
  C7 (amended). With an API token configured, a status query asks the provider if and
  only if the cached record is stale (missing, in a non-terminal status, or succeeded
  without a result URL); for a record that is not stale the answer is made of the cached
  values; after a refresh that the provider answered, the normalized answer is stored in
  the record of the job.
\<close>

theorem poll_contacts_provider_iff_stale:
  assumes "api_token e = Some token" and "token \<noteq> []"
  shows "provider_gets (snd (get_ai_job_status e jid auto_import w))
           = (if stale (jobs w jid) then provider_gets w @ [jid] else provider_gets w)
       \<and> (\<forall>d. jobs w jid = Some d \<and> \<not> stale (Some d) \<longrightarrow>
             fst (get_ai_job_status e jid auto_import w) =
               Ok200 [(''status'', dict_get d ''status''), (''result_url'', dict_get d ''result_url''),
                      (''output'', dict_get d ''output''), (''error'', dict_get d ''error'')])
       \<and> (\<forall>pr. stale (jobs w jid) \<and> predictions_get e jid = Some pr \<longrightarrow>
             (\<exists>jd'. jobs (snd (get_ai_job_status e jid auto_import w)) jid = Some jd'
                \<and> dict_get jd' ''status'' = JStr (status_map (pred_status pr))
                \<and> dict_get jd' ''result_url''
                    = json_of_url (fst (extract_result_from_output (pred_output pr)))
                \<and> dict_get jd' ''output''
                    = py_or (snd (extract_result_from_output (pred_output pr))) (pred_output pr)
                \<and> dict_get jd' ''error'' = pred_error pr))"
proof (intro conjI allI impI)
  show "provider_gets (snd (get_ai_job_status e jid auto_import w))
           = (if stale (jobs w jid) then provider_gets w @ [jid] else provider_gets w)"
    by (rule poll_provider_gets [OF assms])
next
  fix d assume a: "jobs w jid = Some d \<and> \<not> stale (Some d)"
  then have "\<not> stale (jobs w jid)" by simp
  from poll_fresh [OF this, of e auto_import] a
  show "fst (get_ai_job_status e jid auto_import w) =
               Ok200 [(''status'', dict_get d ''status''), (''result_url'', dict_get d ''result_url''),
                      (''output'', dict_get d ''output''), (''error'', dict_get d ''error'')]"
    by (simp add: poll_response_cached)
next
  fix pr assume a: "stale (jobs w jid) \<and> predictions_get e jid = Some pr"
  show "\<exists>jd'. jobs (snd (get_ai_job_status e jid auto_import w)) jid = Some jd'
                \<and> dict_get jd' ''status'' = JStr (status_map (pred_status pr))
                \<and> dict_get jd' ''result_url''
                    = json_of_url (fst (extract_result_from_output (pred_output pr)))
                \<and> dict_get jd' ''output''
                    = py_or (snd (extract_result_from_output (pred_output pr))) (pred_output pr)
                \<and> dict_get jd' ''error'' = pred_error pr"
    using poll_refresh_stored [OF _ assms, of w jid pr auto_import] a by simp
qed

theorem poll_contacts_provider_iff_stale_witness:
  "api_token example_env = Some ''r8_token'' \<and> ''r8_token'' \<noteq> []
   \<and> stale (jobs empty_world ''job-1'')
   \<and> provider_gets (snd (get_ai_job_status example_env ''job-1'' True empty_world)) = [''job-1'']
   \<and> (\<exists>jd'. jobs (snd (get_ai_job_status example_env ''job-1'' True empty_world)) ''job-1'' = Some jd'
          \<and> dict_get jd' ''status'' = JStr ''succeeded''
          \<and> dict_get jd' ''result_url'' = JStr ''http://x''
          \<and> dict_get jd' ''output'' = JStr ''http://x''
          \<and> dict_get jd' ''error'' = JNull)
   \<and> \<not> stale (jobs world_with_succeeded_job ''job-1'')
   \<and> provider_gets (snd (get_ai_job_status example_env ''job-1'' True world_with_succeeded_job)) = []
   \<and> fst (get_ai_job_status example_env ''job-1'' True world_with_succeeded_job)
        = Ok200 [(''status'', JStr ''succeeded''), (''result_url'', JStr ''http://x''),
                 (''output'', JNull), (''error'', JNull)]"
proof -
  have tk: "api_token example_env = Some ''r8_token''" by (simp add: example_env_def)
  have ne: "''r8_token'' \<noteq> []" by simp
  have pr: "predictions_get example_env ''job-1''
              = Some \<lparr>pred_status = ''succeeded'', pred_output = JStr ''http://x'', pred_error = JNull\<rparr>"
    by (simp add: example_env_def)
  have st: "stale (jobs empty_world ''job-1'')" by (simp add: empty_world_def stale_def)
  have j: "jobs world_with_succeeded_job ''job-1'' = Some succeeded_record"
    by (simp add: world_with_succeeded_job_def)
  have s: "dict_get succeeded_record ''status'' = JStr ''succeeded''"
    "dict_get succeeded_record ''result_url'' = JStr ''http://x''"
    "dict_get succeeded_record ''error'' = JNull"
    "dict_get succeeded_record ''output'' = JNull"
    by (simp_all add: succeeded_record_def example_record_def dict_get_def)
  have ns: "\<not> stale (Some succeeded_record)" by (simp add: stale_def s terminal_def)
  have pg: "provider_gets empty_world = []" "provider_gets world_with_succeeded_job = []"
    by (simp_all add: world_with_succeeded_job_def empty_world_def)
  note A = poll_contacts_provider_iff_stale [OF tk ne, of "''job-1''" True empty_world]
  note B = poll_contacts_provider_iff_stale [OF tk ne, of "''job-1''" True world_with_succeeded_job]
  have a1: "provider_gets (snd (get_ai_job_status example_env ''job-1'' True empty_world)) = [''job-1'']"
    using conjunct1 [OF A] st pg by simp
  have a2: "\<exists>jd'. jobs (snd (get_ai_job_status example_env ''job-1'' True empty_world)) ''job-1'' = Some jd'
          \<and> dict_get jd' ''status'' = JStr ''succeeded''
          \<and> dict_get jd' ''result_url'' = JStr ''http://x''
          \<and> dict_get jd' ''output'' = JStr ''http://x''
          \<and> dict_get jd' ''error'' = JNull"
    using A [THEN conjunct2, THEN conjunct2, THEN spec, THEN mp, OF conjI, OF st pr]
    by (simp add: status_map_def py_or_def)
  have b1: "provider_gets (snd (get_ai_job_status example_env ''job-1'' True world_with_succeeded_job)) = []"
    using conjunct1 [OF B] ns j pg by simp
  have b2: "fst (get_ai_job_status example_env ''job-1'' True world_with_succeeded_job)
        = Ok200 [(''status'', JStr ''succeeded''), (''result_url'', JStr ''http://x''),
                 (''output'', JNull), (''error'', JNull)]"
    using B [THEN conjunct2, THEN conjunct1, THEN spec, THEN mp, OF conjI, OF j ns]
    by (simp add: s)
  from tk ne st a1 a2 ns j b1 b2 show ?thesis by simp
qed

section \<open>Updates of a record in a terminal status\<close>

lemma terminal_record_webhook_and_fresh_poll:
  assumes "jobs w jid = Some jd" and "terminal (dict_get jd ''status'')"
  shows "(p_id p = jid \<and> valid_output (p_output p) \<longrightarrow>
           (\<exists>jd'. jobs (snd (replicate_webhook e p w)) jid = Some jd'
              \<and> dict_get jd' ''status'' = JStr (p_status p)
              \<and> dict_get jd' ''result_url'' =
                  (case fst (extract_result_from_output (p_output p)) of
                     None \<Rightarrow> dict_get jd ''result_url''
                   | Some u \<Rightarrow> if u \<noteq> [] then JStr u else dict_get jd ''result_url'')
              \<and> dict_get jd' ''error'' =
                  (case p_error p of
                     None \<Rightarrow> dict_get jd ''error''
                   | Some er \<Rightarrow> if er \<noteq> [] then JStr er else dict_get jd ''error'')))
       \<and> (\<not> stale (Some jd) \<longrightarrow>
           provider_gets (snd (get_ai_job_status e jid auto_import w)) = provider_gets w
           \<and> (\<exists>jd'. jobs (snd (get_ai_job_status e jid auto_import w)) jid = Some jd'
                \<and> dict_get jd' ''status'' = dict_get jd ''status''
                \<and> dict_get jd' ''result_url'' = dict_get jd ''result_url''
                \<and> dict_get jd' ''error'' = dict_get jd ''error''))"
proof (intro conjI impI)
  assume "p_id p = jid \<and> valid_output (p_output p)"
  then have pid: "p_id p = jid" and v: "valid_output (p_output p)" by simp_all
  have "jobs w (p_id p) = Some jd" using assms(1) pid by simp
  from webhook_jobs [OF this v, of e]
  obtain jd1 where j: "jobs (snd (replicate_webhook e p w)) (p_id p)
              = Some (webhook_merge e p (fst (extract_result_from_output (p_output p)))
                        (snd (extract_result_from_output (p_output p))) jd1)"
      and k1: "\<forall>k. k \<noteq> ''asset_id'' \<and> k \<noteq> ''import_job_id'' \<longrightarrow> map_of jd1 k = map_of jd k"
    by (elim exE conjE)
  have r: "dict_get jd1 ''result_url'' = dict_get jd ''result_url''"
    using k1 [THEN spec, of "''result_url''"] by (simp add: dict_get_def)
  have er: "dict_get jd1 ''error'' = dict_get jd ''error''"
    using k1 [THEN spec, of "''error''"] by (simp add: dict_get_def)
  show "\<exists>jd'. jobs (snd (replicate_webhook e p w)) jid = Some jd'
              \<and> dict_get jd' ''status'' = JStr (p_status p)
              \<and> dict_get jd' ''result_url'' =
                  (case fst (extract_result_from_output (p_output p)) of
                     None \<Rightarrow> dict_get jd ''result_url''
                   | Some u \<Rightarrow> if u \<noteq> [] then JStr u else dict_get jd ''result_url'')
              \<and> dict_get jd' ''error'' =
                  (case p_error p of
                     None \<Rightarrow> dict_get jd ''error''
                   | Some er \<Rightarrow> if er \<noteq> [] then JStr er else dict_get jd ''error'')"
    using j pid r er
    by (simp add: webhook_merge_status webhook_merge_result_url webhook_merge_error
          split: option.splits)
next
  assume "\<not> stale (Some jd)"
  then have ns: "\<not> stale (jobs w jid)" using assms(1) by simp
  show "provider_gets (snd (get_ai_job_status e jid auto_import w)) = provider_gets w"
    by (simp add: poll_fresh [OF ns])
next
  assume "\<not> stale (Some jd)"
  then have ns: "\<not> stale (jobs w jid)" using assms(1) by simp
  have c: "v_job_data (cached_vars (jobs w jid)) = Some jd" using assms(1) by simp
  show "\<exists>jd'. jobs (snd (get_ai_job_status e jid auto_import w)) jid = Some jd'
                \<and> dict_get jd' ''status'' = dict_get jd ''status''
                \<and> dict_get jd' ''result_url'' = dict_get jd ''result_url''
                \<and> dict_get jd' ''error'' = dict_get jd ''error''"
    using poll_import_jobs_dict [OF assms(1) c, of e auto_import]
    by (simp add: poll_fresh [OF ns])
qed

lemma terminal_nonempty:
  assumes "terminal (dict_get jd ''status'')"
  shows "jd \<noteq> []"
  using assms by (auto simp: terminal_def dict_get_def)

lemma poll_unrefreshed:
  assumes "jobs w jid = Some jd" and "terminal (dict_get jd ''status'')" and "stale (Some jd)"
    and "api_token e = None \<or> api_token e = Some [] \<or> predictions_get e jid = None"
  shows "\<exists>jd'. jobs (snd (get_ai_job_status e jid ai w)) jid = Some jd'
            \<and> dict_get jd' ''status'' = dict_get jd ''status''
            \<and> dict_get jd' ''result_url'' = dict_get jd ''result_url''
            \<and> dict_get jd' ''error'' = dict_get jd ''error''"
proof -
  have st: "stale (jobs w jid)" using assms(1,3) by simp
  have ne: "jd \<noteq> []" by (rule terminal_nonempty [OF assms(2)])
  show ?thesis
  proof (cases "api_token e = None \<or> api_token e = Some []")
    case True
    then have "get_ai_job_status e jid ai w = (Err404, w)"
      using st by (auto simp: get_ai_job_status_def Let_def should_refresh_stale)
    then show ?thesis using assms(1) by simp
  next
    case False
    then obtain token where tk: "api_token e = Some token" "token \<noteq> []"
      by (cases "api_token e") auto
    from False assms(4) have pn: "predictions_get e jid = None" by auto
    let ?w2 = "log_error ''Failed to get job from Replicate'' (record_provider_get jid w)"
    have r: "snd (get_ai_job_status e jid ai w) = poll_import e jid ai (cached_vars (jobs w jid)) ?w2"
      using st tk pn assms(1) ne
      by (simp add: get_ai_job_status_def Let_def should_refresh_stale)
    have j: "jobs ?w2 jid = Some jd" using assms(1) by simp
    have c: "v_job_data (cached_vars (jobs w jid)) = Some jd" using assms(1) by simp
    from poll_import_jobs_dict [OF j c, of e ai] show ?thesis by (simp add: r)
  qed
qed

text \<open>
  C2 (as stated, refuted). The claim says that an update with a different status leaves
  the status of a terminal record unchanged. The webhook assigns
  \<^verbatim>\<open>job_data["status"] = payload.status\<close> without looking at the stored status: a record
  that is \<^verbatim>\<open>succeeded\<close> becomes \<^verbatim>\<open>failed\<close> by a webhook with the status \<^verbatim>\<open>failed\<close>. The
  poll refreshes a record that is \<^verbatim>\<open>succeeded\<close> without a result URL and stores the status
  the provider reports: when the provider says \<^verbatim>\<open>failed\<close>, the record becomes \<^verbatim>\<open>failed\<close>.
\<close>

theorem terminal_status_overwritten_counterexample:
  "dict_get succeeded_record ''status'' = JStr ''succeeded''
   \<and> map_option (\<lambda>d. dict_get d ''status'')
        (jobs (snd (replicate_webhook example_env failed_payload
                     (setex_job ''job-1'' succeeded_record empty_world))) ''job-1'')
       = Some (JStr ''failed'')
   \<and> dict_get succeeded_no_url_record ''status'' = JStr ''succeeded''
   \<and> map_option (\<lambda>d. dict_get d ''status'')
        (jobs (snd (get_ai_job_status failed_provider_env ''job-1'' True world_with_stale_job))
           ''job-1'')
       = Some (JStr ''failed'')"
proof -
  have a: "dict_get succeeded_record ''status'' = JStr ''succeeded''
   \<and> map_option (\<lambda>d. dict_get d ''status'')
        (jobs (snd (replicate_webhook example_env failed_payload
                     (setex_job ''job-1'' succeeded_record empty_world))) ''job-1'')
       = Some (JStr ''failed'')"
    by (simp add: replicate_webhook_def example_env_def failed_payload_def empty_world_def
        succeeded_record_def example_record_def webhook_update_def webhook_merge_def
        publish_job_update_def setex_job_def dict_get_def py_or_def)
  have s: "dict_get succeeded_no_url_record ''status'' = JStr ''succeeded''"
    "dict_get succeeded_no_url_record ''result_url'' = JNull"
    by (simp_all add: succeeded_no_url_record_def example_record_def dict_get_def)
  have j: "jobs world_with_stale_job ''job-1'' = Some succeeded_no_url_record"
    by (simp add: world_with_stale_job_def)
  have st: "stale (jobs world_with_stale_job ''job-1'')"
    by (simp add: j stale_def s terminal_def)
  have tk: "api_token failed_provider_env = Some ''r8_token''"
    by (simp add: failed_provider_env_def example_env_def)
  have pr: "predictions_get failed_provider_env ''job-1''
              = Some \<lparr>pred_status = ''failed'', pred_output = JNull, pred_error = JStr ''out of memory''\<rparr>"
    by (simp add: failed_provider_env_def)
  from poll_refresh_stored [OF st tk _ pr, of True]
  have "map_option (\<lambda>d. dict_get d ''status'')
        (jobs (snd (get_ai_job_status failed_provider_env ''job-1'' True world_with_stale_job))
           ''job-1'') = Some (JStr ''failed'')"
    by (auto simp: status_map_def)
  with a s show ?thesis by simp
qed

text \<open>
  C2 (amended). For a record in a terminal status: a well-formed webhook sets the stored
  status to the status of the payload, sets \<^verbatim>\<open>result_url\<close> and \<^verbatim>\<open>error\<close> from the payload
  when it carries them, and keeps their values otherwise. A status query on a record
  that is not stale (failed, canceled, or succeeded with a result URL) does not ask
  the provider and leaves the status, \<^verbatim>\<open>result_url\<close> and \<^verbatim>\<open>error\<close> as they were. A status
  query on a stale terminal record (succeeded without a result URL) that the provider
  answers stores the status, the result URL and the error that the provider reports, in
  place of the stored ones; when there is no API token or the provider call fails, the
  three fields stay as they were.
\<close>

theorem terminal_record_updates:
  assumes "jobs w jid = Some jd" and "terminal (dict_get jd ''status'')"
  shows "(p_id p = jid \<and> valid_output (p_output p) \<longrightarrow>
           (\<exists>jd'. jobs (snd (replicate_webhook e p w)) jid = Some jd'
              \<and> dict_get jd' ''status'' = JStr (p_status p)
              \<and> dict_get jd' ''result_url'' =
                  (case fst (extract_result_from_output (p_output p)) of
                     None \<Rightarrow> dict_get jd ''result_url''
                   | Some u \<Rightarrow> if u \<noteq> [] then JStr u else dict_get jd ''result_url'')
              \<and> dict_get jd' ''error'' =
                  (case p_error p of
                     None \<Rightarrow> dict_get jd ''error''
                   | Some er \<Rightarrow> if er \<noteq> [] then JStr er else dict_get jd ''error'')))
       \<and> (\<not> stale (Some jd) \<longrightarrow>
           provider_gets (snd (get_ai_job_status e jid auto_import w)) = provider_gets w
           \<and> (\<exists>jd'. jobs (snd (get_ai_job_status e jid auto_import w)) jid = Some jd'
                \<and> dict_get jd' ''status'' = dict_get jd ''status''
                \<and> dict_get jd' ''result_url'' = dict_get jd ''result_url''
                \<and> dict_get jd' ''error'' = dict_get jd ''error''))
       \<and> (\<forall>token pr. stale (Some jd) \<and> api_token e = Some token \<and> token \<noteq> []
              \<and> predictions_get e jid = Some pr \<longrightarrow>
           (\<exists>jd'. jobs (snd (get_ai_job_status e jid auto_import w)) jid = Some jd'
                \<and> dict_get jd' ''status'' = JStr (status_map (pred_status pr))
                \<and> dict_get jd' ''result_url''
                    = json_of_url (fst (extract_result_from_output (pred_output pr)))
                \<and> dict_get jd' ''error'' = pred_error pr))
       \<and> (stale (Some jd)
              \<and> (api_token e = None \<or> api_token e = Some [] \<or> predictions_get e jid = None) \<longrightarrow>
           (\<exists>jd'. jobs (snd (get_ai_job_status e jid auto_import w)) jid = Some jd'
                \<and> dict_get jd' ''status'' = dict_get jd ''status''
                \<and> dict_get jd' ''result_url'' = dict_get jd ''result_url''
                \<and> dict_get jd' ''error'' = dict_get jd ''error''))"
proof (intro conjI)
  note old = terminal_record_webhook_and_fresh_poll [OF assms, of p e auto_import]
  show "p_id p = jid \<and> valid_output (p_output p) \<longrightarrow>
           (\<exists>jd'. jobs (snd (replicate_webhook e p w)) jid = Some jd'
              \<and> dict_get jd' ''status'' = JStr (p_status p)
              \<and> dict_get jd' ''result_url'' =
                  (case fst (extract_result_from_output (p_output p)) of
                     None \<Rightarrow> dict_get jd ''result_url''
                   | Some u \<Rightarrow> if u \<noteq> [] then JStr u else dict_get jd ''result_url'')
              \<and> dict_get jd' ''error'' =
                  (case p_error p of
                     None \<Rightarrow> dict_get jd ''error''
                   | Some er \<Rightarrow> if er \<noteq> [] then JStr er else dict_get jd ''error''))"
    by (rule conjunct1 [OF old])
  show "\<not> stale (Some jd) \<longrightarrow>
           provider_gets (snd (get_ai_job_status e jid auto_import w)) = provider_gets w
           \<and> (\<exists>jd'. jobs (snd (get_ai_job_status e jid auto_import w)) jid = Some jd'
                \<and> dict_get jd' ''status'' = dict_get jd ''status''
                \<and> dict_get jd' ''result_url'' = dict_get jd ''result_url''
                \<and> dict_get jd' ''error'' = dict_get jd ''error'')"
    by (rule conjunct2 [OF old])
  show "\<forall>token pr. stale (Some jd) \<and> api_token e = Some token \<and> token \<noteq> []
              \<and> predictions_get e jid = Some pr \<longrightarrow>
           (\<exists>jd'. jobs (snd (get_ai_job_status e jid auto_import w)) jid = Some jd'
                \<and> dict_get jd' ''status'' = JStr (status_map (pred_status pr))
                \<and> dict_get jd' ''result_url''
                    = json_of_url (fst (extract_result_from_output (pred_output pr)))
                \<and> dict_get jd' ''error'' = pred_error pr)"
  proof (intro allI impI)
    fix token pr
    assume a: "stale (Some jd) \<and> api_token e = Some token \<and> token \<noteq> []
              \<and> predictions_get e jid = Some pr"
    then have st: "stale (jobs w jid)" using assms(1) by simp
    from a have tk: "api_token e = Some token" and ne: "token \<noteq> []"
      and pr: "predictions_get e jid = Some pr" by simp_all
    from poll_refresh_stored [OF st tk ne pr, of auto_import]
    obtain jd' where "jobs (snd (get_ai_job_status e jid auto_import w)) jid = Some jd'"
      and "dict_get jd' ''status'' = JStr (status_map (pred_status pr))"
      and "dict_get jd' ''result_url'' = json_of_url (fst (extract_result_from_output (pred_output pr)))"
      and "dict_get jd' ''error'' = pred_error pr"
      by (elim exE conjE)
    then show "\<exists>jd'. jobs (snd (get_ai_job_status e jid auto_import w)) jid = Some jd'
                \<and> dict_get jd' ''status'' = JStr (status_map (pred_status pr))
                \<and> dict_get jd' ''result_url''
                    = json_of_url (fst (extract_result_from_output (pred_output pr)))
                \<and> dict_get jd' ''error'' = pred_error pr"
      by (intro exI [of _ jd'] conjI)
  qed
  show "stale (Some jd)
              \<and> (api_token e = None \<or> api_token e = Some [] \<or> predictions_get e jid = None) \<longrightarrow>
           (\<exists>jd'. jobs (snd (get_ai_job_status e jid auto_import w)) jid = Some jd'
                \<and> dict_get jd' ''status'' = dict_get jd ''status''
                \<and> dict_get jd' ''result_url'' = dict_get jd ''result_url''
                \<and> dict_get jd' ''error'' = dict_get jd ''error'')"
  proof
    assume a: "stale (Some jd)
              \<and> (api_token e = None \<or> api_token e = Some [] \<or> predictions_get e jid = None)"
    then have s: "stale (Some jd)"
      and n: "api_token e = None \<or> api_token e = Some [] \<or> predictions_get e jid = None"
      by simp_all
    show "\<exists>jd'. jobs (snd (get_ai_job_status e jid auto_import w)) jid = Some jd'
                \<and> dict_get jd' ''status'' = dict_get jd ''status''
                \<and> dict_get jd' ''result_url'' = dict_get jd ''result_url''
                \<and> dict_get jd' ''error'' = dict_get jd ''error''"
      by (rule poll_unrefreshed [OF assms s n])
  qed
qed

theorem terminal_record_updates_witness:
  "jobs world_with_succeeded_job ''job-1'' = Some succeeded_record
   \<and> terminal (dict_get succeeded_record ''status'')
   \<and> p_id failed_payload = ''job-1'' \<and> valid_output (p_output failed_payload)
   \<and> \<not> stale (Some succeeded_record)
   \<and> (\<exists>jd'. jobs (snd (replicate_webhook example_env failed_payload world_with_succeeded_job)) ''job-1''
              = Some jd'
          \<and> dict_get jd' ''status'' = JStr ''failed''
          \<and> dict_get jd' ''result_url'' = JStr ''http://x''
          \<and> dict_get jd' ''error'' = JStr ''out of memory'')
   \<and> provider_gets (snd (get_ai_job_status example_env ''job-1'' True world_with_succeeded_job)) = []
   \<and> (\<exists>jd'. jobs (snd (get_ai_job_status example_env ''job-1'' True world_with_succeeded_job)) ''job-1''
              = Some jd'
          \<and> dict_get jd' ''status'' = JStr ''succeeded''
          \<and> dict_get jd' ''result_url'' = JStr ''http://x''
          \<and> dict_get jd' ''error'' = JNull)
   \<and> jobs world_with_stale_job ''job-1'' = Some succeeded_no_url_record
   \<and> terminal (dict_get succeeded_no_url_record ''status'')
   \<and> stale (Some succeeded_no_url_record)
   \<and> api_token failed_provider_env = Some ''r8_token'' \<and> ''r8_token'' \<noteq> []
   \<and> predictions_get failed_provider_env ''job-1''
        = Some \<lparr>pred_status = ''failed'', pred_output = JNull, pred_error = JStr ''out of memory''\<rparr>
   \<and> (\<exists>jd'. jobs (snd (get_ai_job_status failed_provider_env ''job-1'' True world_with_stale_job)) ''job-1''
              = Some jd'
          \<and> dict_get jd' ''status'' = JStr ''failed''
          \<and> dict_get jd' ''result_url'' = JNull
          \<and> dict_get jd' ''error'' = JStr ''out of memory'')
   \<and> api_token no_token_env = None
   \<and> (\<exists>jd'. jobs (snd (get_ai_job_status no_token_env ''job-1'' True world_with_stale_job)) ''job-1''
              = Some jd'
          \<and> dict_get jd' ''status'' = JStr ''succeeded''
          \<and> dict_get jd' ''result_url'' = JNull
          \<and> dict_get jd' ''error'' = JNull)"
proof -
  have h: "jobs world_with_succeeded_job ''job-1'' = Some succeeded_record"
    by (simp add: world_with_succeeded_job_def)
  have s: "dict_get succeeded_record ''status'' = JStr ''succeeded''"
    "dict_get succeeded_record ''result_url'' = JStr ''http://x''"
    "dict_get succeeded_record ''error'' = JNull"
    by (simp_all add: succeeded_record_def example_record_def dict_get_def)
  have t: "terminal (dict_get succeeded_record ''status'')"
    by (simp add: s terminal_def)
  have p: "p_id failed_payload = ''job-1'' \<and> valid_output (p_output failed_payload)"
    by (simp add: failed_payload_def)
  have n: "\<not> stale (Some succeeded_record)"
    by (simp add: stale_def s terminal_def)
  have pf: "p_status failed_payload = ''failed''" "p_error failed_payload = Some ''out of memory''"
    "fst (extract_result_from_output (p_output failed_payload)) = None"
    by (simp_all add: failed_payload_def)
  have pg: "provider_gets world_with_succeeded_job = []"
    by (simp add: world_with_succeeded_job_def empty_world_def)
  note T = terminal_record_updates [OF h t, of failed_payload example_env True]
  from conjunct1 [OF T] p have A: "\<exists>jd'. jobs (snd (replicate_webhook example_env failed_payload world_with_succeeded_job)) ''job-1''
              = Some jd'
          \<and> dict_get jd' ''status'' = JStr ''failed''
          \<and> dict_get jd' ''result_url'' = JStr ''http://x''
          \<and> dict_get jd' ''error'' = JStr ''out of memory''"
    by (simp add: pf s)
  from T [THEN conjunct2, THEN conjunct1] n
  have B: "provider_gets (snd (get_ai_job_status example_env ''job-1'' True world_with_succeeded_job)) = []
   \<and> (\<exists>jd'. jobs (snd (get_ai_job_status example_env ''job-1'' True world_with_succeeded_job)) ''job-1''
              = Some jd'
          \<and> dict_get jd' ''status'' = JStr ''succeeded''
          \<and> dict_get jd' ''result_url'' = JStr ''http://x''
          \<and> dict_get jd' ''error'' = JNull)"
    by (simp add: s pg)
  have h2: "jobs world_with_stale_job ''job-1'' = Some succeeded_no_url_record"
    by (simp add: world_with_stale_job_def)
  have s2: "dict_get succeeded_no_url_record ''status'' = JStr ''succeeded''"
    "dict_get succeeded_no_url_record ''result_url'' = JNull"
    "dict_get succeeded_no_url_record ''error'' = JNull"
    by (simp_all add: succeeded_no_url_record_def example_record_def dict_get_def)
  have t2: "terminal (dict_get succeeded_no_url_record ''status'')"
    by (simp add: s2 terminal_def)
  have st2: "stale (Some succeeded_no_url_record)"
    by (simp add: stale_def s2 terminal_def)
  have tk: "api_token failed_provider_env = Some ''r8_token''"
    by (simp add: failed_provider_env_def example_env_def)
  have ne: "''r8_token'' \<noteq> []" by simp
  have pr: "predictions_get failed_provider_env ''job-1''
        = Some \<lparr>pred_status = ''failed'', pred_output = JNull, pred_error = JStr ''out of memory''\<rparr>"
    by (simp add: failed_provider_env_def)
  have nt: "api_token no_token_env = None" by (simp add: no_token_env_def)
  note T2 = terminal_record_updates [OF h2 t2, of failed_payload failed_provider_env True]
  note T3 = terminal_record_updates [OF h2 t2, of failed_payload no_token_env True]
  have C: "\<exists>jd'. jobs (snd (get_ai_job_status failed_provider_env ''job-1'' True world_with_stale_job)) ''job-1''
              = Some jd'
          \<and> dict_get jd' ''status'' = JStr ''failed''
          \<and> dict_get jd' ''result_url'' = JNull
          \<and> dict_get jd' ''error'' = JStr ''out of memory''"
    using T2 [THEN conjunct2, THEN conjunct2, THEN conjunct1, THEN spec, THEN spec, THEN mp,
              OF conjI [OF st2 conjI [OF tk conjI [OF ne pr]]]]
    by (simp add: status_map_def)
  have D: "\<exists>jd'. jobs (snd (get_ai_job_status no_token_env ''job-1'' True world_with_stale_job)) ''job-1''
              = Some jd'
          \<and> dict_get jd' ''status'' = JStr ''succeeded''
          \<and> dict_get jd' ''result_url'' = JNull
          \<and> dict_get jd' ''error'' = JNull"
    using T3 [THEN conjunct2, THEN conjunct2, THEN conjunct2, THEN mp,
              OF conjI [OF st2 disjI1 [OF nt]]]
    by (simp add: s2)
  from h t p n A B h2 t2 st2 tk ne pr C nt D show ?thesis by simp
qed

section \<open>The import trigger of the poll against the one of the webhook\<close>













section \<open>The marker under two processes\<close>

text \<open>
  Run without interruption, the steps of a trigger do what the handler does.
\<close>

lemma webhook_import_steps_run:
  "webhook_import_steps 5 e jid url (CheckMarker, w) = (Done, webhook_import e jid url w)"
  by (simp add: eval_nat_numeral webhook_import_def Let_def split: option.splits)

lemma poll_import_steps_run:
  "poll_import_steps 4 e jid auto_import v (CheckMarker, w) = (Done, poll_import e jid auto_import v w)"
  by (simp add: eval_nat_numeral poll_import_def Let_def split: option.splits)

lemma succeeded_vars:
  "v_job_data (cached_vars (Some succeeded_record)) = Some succeeded_record"
  "v_status (cached_vars (Some succeeded_record)) = JStr ''succeeded''"
  "v_result_url (cached_vars (Some succeeded_record)) = JStr ''http://x''"
  by (simp_all add: cached_vars_def succeeded_record_def example_record_def dict_get_def
          dict_get_default_def)

lemma succeeded_record_video:
  "poll_generation_type succeeded_record = JStr ''video''"
  by (simp add: poll_generation_type_def succeeded_record_def example_record_def dict_get_default_def)

lemma example_enqueue: "enqueue example_env call = Some ''import-1''"
  by (simp add: example_env_def)

lemma start_fields:
  "jobs world_with_succeeded_job ''job-1'' = Some succeeded_record"
  "imported world_with_succeeded_job = {}"
  "import_calls world_with_succeeded_job = []"
  by (simp_all add: world_with_succeeded_job_def empty_world_def)

text \<open>When the webhook's trigger has finished before the poll's starts, there is one import call.\<close>

lemma sequential_schedule_one_enqueue:
  "length (import_calls (shared (run_schedule example_env example_env ''job-1'' ''http://x''
       (cached_vars (Some succeeded_record)) sequential_schedule race_start))) = 1"
  by (simp add: sequential_schedule_def race_start_def race_step_def succeeded_vars
        succeeded_record_video example_enqueue start_fields)

text \<open>
  C1. The claim asks for exactly one import call when the webhook and the poll both see
  the success of a job, and for a marker that is acquired by one atomic create-if-absent.
  Each trigger reads the marker with \<^verbatim>\<open>exists\<close> and writes it with a later \<^verbatim>\<open>setex\<close>, after
  the enqueue call. Under the schedule in which both processes read the marker before
  either writes it, both triggers run to their end and the import queue is called twice.
\<close>

theorem dedup_race_two_enqueues:
  "webhook_pc (run_schedule example_env example_env ''job-1'' ''http://x''
       (cached_vars (Some succeeded_record)) interleaved_schedule race_start) = Done
   \<and> poll_pc (run_schedule example_env example_env ''job-1'' ''http://x''
       (cached_vars (Some succeeded_record)) interleaved_schedule race_start) = Done
   \<and> length (import_calls (shared (run_schedule example_env example_env ''job-1'' ''http://x''
       (cached_vars (Some succeeded_record)) interleaved_schedule race_start))) = 2"
  by (simp add: interleaved_schedule_def race_start_def race_step_def succeeded_vars
        succeeded_record_video example_enqueue start_fields)

section \<open>Sequential dispatch of clips\<close>










lemma log_error_queued [simp]: "has_queued_record (log_error m w) pid = has_queued_record w pid"
  by (simp add: has_queued_record_def)















section \<open>The status of a generation\<close>















end
